theory Spec2Isabelle
  imports Complex_Main
begin


section \<open>Python values used by the training scripts\<close>

text \<open>
  The losses handled by \<^verbatim>\<open>train\<close>, \<^verbatim>\<open>evaluate\<close> and the epoch loop are Python floats.
  The loop only adds them, divides them by a dataset length, negates them and compares them
  with \<^verbatim>\<open><\<close>, so a float is modelled by its IEEE class: a finite value (abstracted to a
  real number, rounding and overflow of finite sums are not modelled), the two infinities and
  NaN. Every comparison with NaN is false, as in Python.
\<close>

datatype pyfloat = Fin real | PInf | NInf | NaN

fun flt :: "pyfloat \<Rightarrow> pyfloat \<Rightarrow> bool" where
  "flt NaN _ = False"
| "flt _ NaN = False"
| "flt (Fin a) (Fin b) = (a < b)"
| "flt (Fin a) PInf = True"
| "flt (Fin a) NInf = False"
| "flt PInf _ = False"
| "flt NInf NInf = False"
| "flt NInf _ = True"

fun fadd :: "pyfloat \<Rightarrow> pyfloat \<Rightarrow> pyfloat" where
  "fadd NaN _ = NaN"
| "fadd _ NaN = NaN"
| "fadd (Fin a) (Fin b) = Fin (a + b)"
| "fadd (Fin a) PInf = PInf"
| "fadd (Fin a) NInf = NInf"
| "fadd PInf NInf = NaN"
| "fadd PInf _ = PInf"
| "fadd NInf PInf = NaN"
| "fadd NInf _ = NInf"

fun fneg :: "pyfloat \<Rightarrow> pyfloat" where
  "fneg (Fin a) = Fin (- a)"
| "fneg PInf = NInf"
| "fneg NInf = PInf"
| "fneg NaN = NaN"

datatype error =
    AttributeError string string
  | ZeroDivisionError
  | CudaUnavailable
  | ShapeError
  | IndexError

text \<open>\<^verbatim>\<open>loss / len(loader.dataset)\<close>: dividing by the integer 0 raises.\<close>

fun fdiv_len :: "pyfloat \<Rightarrow> nat \<Rightarrow> error + pyfloat" where
  "fdiv_len v 0 = Inl ZeroDivisionError"
| "fdiv_len (Fin a) n = Inr (Fin (a / real n))"
| "fdiv_len v n = Inr v"

section \<open>The collaborators: torch.cuda, the SVI object, the data loaders\<close>

text \<open>
  \<^verbatim>\<open>'s\<close> is everything the Pyro and torch calls mutate (parameter store, optimizer
  moments, random generator, module mode); \<^verbatim>\<open>'x\<close> is a minibatch tensor.
  \<^verbatim>\<open>svi.step\<close> and \<^verbatim>\<open>svi.evaluate_loss\<close> return a loss and leave a new state.
\<close>

record ('s, 'x) env =
  cuda_available :: bool
  cuda :: "'x \<Rightarrow> 'x"
  svi_step :: "'x \<Rightarrow> 's \<Rightarrow> pyfloat \<times> 's"
  svi_evaluate_loss :: "'x \<Rightarrow> 's \<Rightarrow> pyfloat \<times> 's"
  set_training :: "bool \<Rightarrow> 's \<Rightarrow> 's"
  reconstruct_state :: "'s \<Rightarrow> 's"

text \<open>
  A loader is iterated for its minibatches and asked for \<^verbatim>\<open>len(loader.dataset)\<close>.
\<close>

record 'b loader =
  batches :: "'b list"
  dataset_len :: nat

text \<open>
  Calling an attribute of the module \<^verbatim>\<open>torch.cuda\<close> with no argument. Of the names the
  two scripts use, only \<^verbatim>\<open>is_available\<close> exists in the module.
\<close>

definition torch_cuda_call :: "('s, 'x) env \<Rightarrow> string \<Rightarrow> error + bool" where
  "torch_cuda_call E name =
     (if name = ''is_available'' then Inr (cuda_available E)
      else Inl (AttributeError ''torch.cuda'' name))"

section \<open>rgbd\_pvae\_train.py: train and evaluate\<close>

text \<open>
  In \<^verbatim>\<open>train\<close> the statement \<^verbatim>\<open>epoch_loss += svi.step(x)\<close> is indented under
  \<^verbatim>\<open>if torch.cuda.is_available():\<close>; in \<^verbatim>\<open>evaluate\<close> the accumulation follows the
  \<^verbatim>\<open>if\<close>.
\<close>

fun train_loop :: "('s, 'x) env \<Rightarrow> 'x list \<Rightarrow> pyfloat \<Rightarrow> 's \<Rightarrow> error + (pyfloat \<times> 's)" where
  "train_loop E [] epoch_loss s = Inr (epoch_loss, s)"
| "train_loop E (x # xs) epoch_loss s =
     (case torch_cuda_call E ''is_available'' of
        Inl e \<Rightarrow> Inl e
      | Inr True \<Rightarrow>
          (let x' = cuda E x;
               (l, s') = svi_step E x' s
           in train_loop E xs (fadd epoch_loss l) s')
      | Inr False \<Rightarrow> train_loop E xs epoch_loss s)"

definition train :: "('s, 'x) env \<Rightarrow> 'x loader \<Rightarrow> 's \<Rightarrow> error + (pyfloat \<times> 's)" where
  "train E train_loader s =
     (case train_loop E (batches train_loader) (Fin 0) s of
        Inl e \<Rightarrow> Inl e
      | Inr (epoch_loss, s') \<Rightarrow>
          (case fdiv_len epoch_loss (dataset_len train_loader) of
             Inl e \<Rightarrow> Inl e
           | Inr total_epoch_loss_train \<Rightarrow> Inr (total_epoch_loss_train, s')))"

fun evaluate_loop :: "('s, 'x) env \<Rightarrow> 'x list \<Rightarrow> pyfloat \<Rightarrow> 's \<Rightarrow> error + (pyfloat \<times> 's)" where
  "evaluate_loop E [] test_loss s = Inr (test_loss, s)"
| "evaluate_loop E (x # xs) test_loss s =
     (case torch_cuda_call E ''is_available'' of
        Inl e \<Rightarrow> Inl e
      | Inr c \<Rightarrow>
          (let x' = (if c then cuda E x else x);
               (l, s') = svi_evaluate_loss E x' s
           in evaluate_loop E xs (fadd test_loss l) s'))"

definition evaluate :: "('s, 'x) env \<Rightarrow> 'x loader \<Rightarrow> 's \<Rightarrow> error + (pyfloat \<times> 's)" where
  "evaluate E test_loader s =
     (case evaluate_loop E (batches test_loader) (Fin 0) s of
        Inl e \<Rightarrow> Inl e
      | Inr (test_loss, s') \<Rightarrow>
          (case fdiv_len test_loss (dataset_len test_loader) of
             Inl e \<Rightarrow> Inl e
           | Inr total_epoch_loss_test \<Rightarrow> Inr (total_epoch_loss_test, s')))"

section \<open>rgbd\_vae.py: train and evaluate\<close>

text \<open>
  The loaders of this script yield pairs \<^verbatim>\<open>(x, _)\<close>. Both functions call
  \<^verbatim>\<open>torch.cuda.is_availabe()\<close>.
\<close>

fun vae_train_loop ::
  "('s, 'x) env \<Rightarrow> ('x \<times> 'y) list \<Rightarrow> pyfloat \<Rightarrow> 's \<Rightarrow> error + (pyfloat \<times> 's)" where
  "vae_train_loop E [] epoch_loss s = Inr (epoch_loss, s)"
| "vae_train_loop E ((x, _) # xs) epoch_loss s =
     (case torch_cuda_call E ''is_availabe'' of
        Inl e \<Rightarrow> Inl e
      | Inr True \<Rightarrow>
          (let x' = cuda E x;
               (l, s') = svi_step E x' s
           in vae_train_loop E xs (fadd epoch_loss l) s')
      | Inr False \<Rightarrow> vae_train_loop E xs epoch_loss s)"

definition vae_train ::
  "('s, 'x) env \<Rightarrow> ('x \<times> 'y) loader \<Rightarrow> 's \<Rightarrow> error + (pyfloat \<times> 's)" where
  "vae_train E train_loader s =
     (case vae_train_loop E (batches train_loader) (Fin 0) s of
        Inl e \<Rightarrow> Inl e
      | Inr (epoch_loss, s') \<Rightarrow>
          (case fdiv_len epoch_loss (dataset_len train_loader) of
             Inl e \<Rightarrow> Inl e
           | Inr total_epoch_loss_train \<Rightarrow> Inr (total_epoch_loss_train, s')))"

fun vae_evaluate_loop ::
  "('s, 'x) env \<Rightarrow> ('x \<times> 'y) list \<Rightarrow> pyfloat \<Rightarrow> 's \<Rightarrow> error + (pyfloat \<times> 's)" where
  "vae_evaluate_loop E [] test_loss s = Inr (test_loss, s)"
| "vae_evaluate_loop E ((x, _) # xs) test_loss s =
     (case torch_cuda_call E ''is_availabe'' of
        Inl e \<Rightarrow> Inl e
      | Inr c \<Rightarrow>
          (let x' = (if c then cuda E x else x);
               (l, s') = svi_evaluate_loss E x' s
           in vae_evaluate_loop E xs (fadd test_loss l) s'))"

definition vae_evaluate ::
  "('s, 'x) env \<Rightarrow> ('x \<times> 'y) loader \<Rightarrow> 's \<Rightarrow> error + (pyfloat \<times> 's)" where
  "vae_evaluate E test_loader s =
     (case vae_evaluate_loop E (batches test_loader) (Fin 0) s of
        Inl e \<Rightarrow> Inl e
      | Inr (test_loss, s') \<Rightarrow>
          (case fdiv_len test_loss (dataset_len test_loader) of
             Inl e \<Rightarrow> Inl e
           | Inr total_epoch_loss_test \<Rightarrow> Inr (total_epoch_loss_test, s')))"

text \<open>
  A small concrete environment: the state counts the SVI steps taken, and the loss of an
  evaluation is a function of that count.
\<close>

definition counting_env :: "bool \<Rightarrow> (nat \<Rightarrow> pyfloat) \<Rightarrow> (nat, nat) env" where
  "counting_env c test_loss =
     \<lparr> cuda_available = c,
       cuda = (\<lambda>x. x),
       svi_step = (\<lambda>x s. (Fin 1, Suc s)),
       svi_evaluate_loss = (\<lambda>x s. (test_loss s, s)),
       set_training = (\<lambda>b s. s),
       reconstruct_state = (\<lambda>s. s) \<rparr>"

text \<open>A loader over a dataset of one example, yielded as one minibatch.\<close>

definition one_batch :: "nat loader" where
  "one_batch = \<lparr> batches = [0], dataset_len = 1 \<rparr>"

section \<open>Tensor shapes through the network layers\<close>

text \<open>
  The layers are followed at the level of shapes: a layer maps the shape of a batched
  (rank 4, or rank 2 for \<^verbatim>\<open>nn.Linear\<close>) input to the shape of its output or raises.
  \<^verbatim>\<open>nn.Sequential\<close> chains layers and stops at the first one that raises.
\<close>

type_synonym shape = "nat list"
type_synonym layer = "shape \<Rightarrow> error + shape"

fun sequential :: "layer list \<Rightarrow> layer" where
  "sequential [] x = Inr x"
| "sequential (l # ls) x = (case l x of Inl e \<Rightarrow> Inl e | Inr y \<Rightarrow> sequential ls y)"

text \<open>\<^verbatim>\<open>nn.Conv2d(cin, cout, k, padding=p, stride=st)\<close>\<close>

fun conv2d :: "nat \<Rightarrow> nat \<Rightarrow> nat \<Rightarrow> nat \<Rightarrow> nat \<Rightarrow> layer" where
  "conv2d cin cout k p st [n, c, h, w] =
     (if c \<noteq> cin \<or> h + 2 * p < k \<or> w + 2 * p < k then Inl ShapeError
      else Inr [n, cout, (h + 2 * p - k) div st + 1, (w + 2 * p - k) div st + 1])"
| "conv2d cin cout k p st _ = Inl ShapeError"

text \<open>\<^verbatim>\<open>nn.ConvTranspose2d(cin, cout, k, stride=st)\<close>, no padding.\<close>

fun conv_transpose2d :: "nat \<Rightarrow> nat \<Rightarrow> nat \<Rightarrow> nat \<Rightarrow> layer" where
  "conv_transpose2d cin cout k st [n, c, h, w] =
     (if c \<noteq> cin \<or> h = 0 \<or> w = 0 then Inl ShapeError
      else Inr [n, cout, (h - 1) * st + k, (w - 1) * st + k])"
| "conv_transpose2d cin cout k st _ = Inl ShapeError"

text \<open>
  \<^verbatim>\<open>nn.BatchNorm2d(c)\<close>: the channel count must match, and in training mode a channel
  with exactly one value is refused.
\<close>

fun batch_norm2d :: "bool \<Rightarrow> nat \<Rightarrow> layer" where
  "batch_norm2d training c [n, c', h, w] =
     (if c' \<noteq> c \<or> (training \<and> n * h * w = 1) then Inl ShapeError else Inr [n, c', h, w])"
| "batch_norm2d training c _ = Inl ShapeError"

text \<open>
  \<^verbatim>\<open>nn.InstanceNorm2d(c)\<close> (no affine parameters, no running statistics): an
  instance with exactly one spatial element is refused.
\<close>

fun instance_norm2d :: "nat \<Rightarrow> layer" where
  "instance_norm2d c [n, c', h, w] =
     (if h * w = 1 then Inl ShapeError else Inr [n, c', h, w])"
| "instance_norm2d c _ = Inl ShapeError"

definition relu :: layer where
  "relu x = Inr x"

definition leaky_relu :: layer where
  "leaky_relu x = Inr x"

definition sigmoid_shape :: layer where
  "sigmoid_shape x = Inr x"

text \<open>\<^verbatim>\<open>nn.UpsamplingNearest2d(scale_factor=2)\<close>\<close>

fun upsampling_nearest2d :: "nat \<Rightarrow> layer" where
  "upsampling_nearest2d f [n, c, h, w] = Inr [n, c, f * h, f * w]"
| "upsampling_nearest2d f _ = Inl ShapeError"

text \<open>\<^verbatim>\<open>nn.Linear(fin, fout)\<close> acts on the last axis.\<close>

definition linear :: "nat \<Rightarrow> nat \<Rightarrow> layer" where
  "linear fin fout x =
     (if x = [] \<or> last x \<noteq> fin then Inl ShapeError else Inr (butlast x @ [fout]))"

text \<open>\<^verbatim>\<open>t.flatten(d)\<close> merges the axes from \<^verbatim>\<open>d\<close> on.\<close>

definition flatten_from :: "nat \<Rightarrow> layer" where
  "flatten_from d x =
     (if length x \<le> d then Inl ShapeError else Inr (take d x @ [prod_list (drop d x)]))"

subsection \<open>rgbd\_pvae\_train.py\<close>

definition pvae_encoder_depths :: "nat list" where
  "pvae_encoder_depths = [4, 32, 64, 128, 256, 512]"

definition pvae_encoder_convs :: "bool \<Rightarrow> layer list" where
  "pvae_encoder_convs training =
     map (\<lambda>i. sequential
            [conv2d (pvae_encoder_depths ! i) (pvae_encoder_depths ! (i + 1)) 4 1 2,
             batch_norm2d training (pvae_encoder_depths ! (i + 1)),
             leaky_relu])
         [0 ..< length pvae_encoder_depths - 1]"

text \<open>\<^verbatim>\<open>Encoder.forward\<close>: the shapes of \<^verbatim>\<open>(mu, log_var)\<close>.\<close>

definition pvae_encoder :: "bool \<Rightarrow> nat \<Rightarrow> shape \<Rightarrow> error + (shape \<times> shape)" where
  "pvae_encoder training z_dim x =
     (case sequential (pvae_encoder_convs training @ [flatten_from 1]) x of
        Inl e \<Rightarrow> Inl e
      | Inr conv_out \<Rightarrow>
          (case linear (last pvae_encoder_depths * 4 ^ 2) z_dim conv_out of
             Inl e \<Rightarrow> Inl e
           | Inr mu \<Rightarrow>
               (case linear (last pvae_encoder_depths * 4 ^ 2) z_dim conv_out of
                  Inl e \<Rightarrow> Inl e
                | Inr log_var \<Rightarrow> Inr (mu, log_var))))"

definition pvae_decoder_depths :: "nat list" where
  "pvae_decoder_depths = [512, 256, 128, 64, 32, 4]"

text \<open>\<^verbatim>\<open>t.view(z.shape[0], -1, 4, 4)\<close> on the output of \<^verbatim>\<open>fc\<close>.\<close>

fun view_grid :: "nat \<Rightarrow> layer" where
  "view_grid n [n', m] =
     (if n = 0 \<or> n' \<noteq> n \<or> m mod 16 \<noteq> 0 then Inl ShapeError else Inr [n, m div 16, 4, 4])"
| "view_grid n _ = Inl ShapeError"

definition pvae_decoder_convs :: "bool \<Rightarrow> layer list" where
  "pvae_decoder_convs training =
     map (\<lambda>i. sequential
            [upsampling_nearest2d 2,
             conv2d (pvae_decoder_depths ! i) (pvae_decoder_depths ! (i + 1)) 3 1 1,
             batch_norm2d training (pvae_decoder_depths ! (i + 1)),
             leaky_relu])
         [0 ..< length pvae_decoder_depths - 1]"

definition pvae_decoder :: "bool \<Rightarrow> nat \<Rightarrow> layer" where
  "pvae_decoder training z_dim z =
     (case z of
        [] \<Rightarrow> Inl ShapeError
      | n # _ \<Rightarrow>
          sequential
            ([linear z_dim (hd pvae_decoder_depths * 4 ^ 2), view_grid n]
             @ pvae_decoder_convs training @ [sigmoid_shape]) z)"

subsection \<open>rgbd\_vae.py\<close>

text \<open>
  \<^verbatim>\<open>ResBlock(c, c)\<close>: with equal channel counts there is no 1x1 projection, and the
  sum \<^verbatim>\<open>self.conv(x) + x\<close> needs equal shapes.
\<close>

definition res_block :: "nat \<Rightarrow> nat \<Rightarrow> layer" where
  "res_block in_channels out_channels x =
     (case (if in_channels \<noteq> out_channels
            then sequential [conv2d in_channels out_channels 1 0 1, instance_norm2d out_channels] x
            else Inr x) of
        Inl e \<Rightarrow> Inl e
      | Inr x' \<Rightarrow>
          (case sequential
                  [conv2d in_channels out_channels 3 1 1, instance_norm2d out_channels, relu,
                   conv2d in_channels out_channels 3 1 1, instance_norm2d out_channels] x' of
             Inl e \<Rightarrow> Inl e
           | Inr y \<Rightarrow> (if y = x' then relu y else Inl ShapeError)))"

definition vae_encoder_depths :: "nat list" where
  "vae_encoder_depths = [64, 76, 88, 100, 128, 200]"

definition vae_encoder_convs :: "layer list" where
  "vae_encoder_convs =
     map (\<lambda>i. sequential
            [conv2d (vae_encoder_depths ! i) (vae_encoder_depths ! (i + 1)) 3 1 2,
             instance_norm2d (vae_encoder_depths ! (i + 1)),
             relu])
         [0 ..< length vae_encoder_depths - 1]"

text \<open>\<^verbatim>\<open>Encoder.forward\<close> returns one tensor whose last axis holds mu and log(var).\<close>

definition vae_encoder :: layer where
  "vae_encoder =
     sequential
       ([sequential [conv2d 4 64 3 1 1, instance_norm2d 64, leaky_relu]]
        @ vae_encoder_convs
        @ [sequential [res_block (last vae_encoder_depths) (last vae_encoder_depths),
                       res_block (last vae_encoder_depths) (last vae_encoder_depths)],
           sequential [conv2d 200 250 3 1 2, instance_norm2d 250, relu],
           sequential [conv2d 250 300 3 1 2, instance_norm2d 300, relu],
           flatten_from 2,
           linear 4 2])"

definition vae_decoder_depths :: "nat list" where
  "vae_decoder_depths = [200, 128, 100, 88, 76, 64]"

definition vae_decoder_convs :: "layer list" where
  "vae_decoder_convs =
     map (\<lambda>i. sequential
            [conv_transpose2d (vae_decoder_depths ! i) (vae_decoder_depths ! (i + 1)) 3 2,
             instance_norm2d (vae_decoder_depths ! (i + 1)), relu])
         [0 ..< 2]
     @ map (\<lambda>i. sequential
            [conv_transpose2d (vae_decoder_depths ! i) (vae_decoder_depths ! (i + 1)) 2 2,
             instance_norm2d (vae_decoder_depths ! (i + 1)), relu])
         [2 ..< length vae_decoder_depths - 1]"

text \<open>\<^verbatim>\<open>z.view(z.shape[0], z.shape[1], 1, 1)\<close>\<close>

fun view_1x1 :: layer where
  "view_1x1 [n, d] = Inr [n, d, 1, 1]"
| "view_1x1 _ = Inl ShapeError"

definition vae_decoder :: layer where
  "vae_decoder =
     sequential
       ([view_1x1,
         sequential [conv_transpose2d 300 250 4 1, instance_norm2d 250, relu],
         sequential [conv_transpose2d 250 200 3 1, instance_norm2d 200, relu],
         sequential [res_block (hd vae_decoder_depths) (hd vae_decoder_depths),
                     res_block (hd vae_decoder_depths) (hd vae_decoder_depths)]]
        @ vae_decoder_convs
        @ [sequential [conv2d 64 4 3 1 1, instance_norm2d 4, leaky_relu],
           sigmoid_shape])"


section \<open>Tensors with values\<close>

text \<open>
  A tensor with its entries is a nest of lists; entries are real numbers (floating-point
  rounding is not modelled).
\<close>

datatype 'a tensor = Sc 'a | Tn "'a tensor list"

fun has_shape :: "nat list \<Rightarrow> 'a tensor \<Rightarrow> bool" where
  "has_shape [] (Sc _) = True"
| "has_shape (n # ns) (Tn ts) = (length ts = n \<and> list_all (has_shape ns) ts)"
| "has_shape _ _ = False"

fun ndim :: "'a tensor \<Rightarrow> nat" where
  "ndim (Sc _) = 0"
| "ndim (Tn []) = 1"
| "ndim (Tn (t # _)) = Suc (ndim t)"

primrec entries :: "'a tensor \<Rightarrow> 'a list" where
  "entries (Sc a) = [a]"
| "entries (Tn ts) = concat (map entries ts)"

text \<open>\<^verbatim>\<open>x.shape[0]\<close>\<close>

fun shape0 :: "'a tensor \<Rightarrow> error + nat" where
  "shape0 (Sc _) = Inl IndexError"
| "shape0 (Tn ts) = Inr (length ts)"

text \<open>\<^verbatim>\<open>x.new_zeros(size)\<close> and \<^verbatim>\<open>x.new_ones(size)\<close> fill a tensor of the given size.\<close>

fun new_full :: "'a \<Rightarrow> nat list \<Rightarrow> 'a tensor" where
  "new_full v [] = Sc v"
| "new_full v (n # ns) = Tn (replicate n (new_full v ns))"

fun sequence_err :: "(error + 'a) list \<Rightarrow> error + 'a list" where
  "sequence_err [] = Inr []"
| "sequence_err (r # rs) =
     (case r of
        Inl e \<Rightarrow> Inl e
      | Inr a \<Rightarrow> (case sequence_err rs of Inl e \<Rightarrow> Inl e | Inr as \<Rightarrow> Inr (a # as)))"

text \<open>
  Pairing two tensors entry by entry, for the pointwise operations. The tensors must have
  the same shape; where they differ torch would broadcast or raise, and the model raises.
\<close>

primrec tzip :: "'a tensor \<Rightarrow> 'b tensor \<Rightarrow> error + ('a \<times> 'b) tensor" where
  "tzip (Sc a) t = (case t of Sc b \<Rightarrow> Inr (Sc (a, b)) | Tn _ \<Rightarrow> Inl ShapeError)"
| "tzip (Tn as) t =
     (case t of
        Sc _ \<Rightarrow> Inl ShapeError
      | Tn bs \<Rightarrow>
          (if length as \<noteq> length bs then Inl ShapeError
           else (case sequence_err (map (\<lambda>(f, b). f b) (zip (map tzip as) bs)) of
                   Inl e \<Rightarrow> Inl e
                 | Inr ts \<Rightarrow> Inr (Tn ts))))"

text \<open>\<^verbatim>\<open>params[:, :, i]\<close> on a tensor of rank 3.\<close>

definition index_axis2 :: "nat \<Rightarrow> 'a tensor \<Rightarrow> error + 'a tensor" where
  "index_axis2 i params =
     (case params of
        Sc _ \<Rightarrow> Inl IndexError
      | Tn rows \<Rightarrow>
          (case sequence_err
                  (map (\<lambda>row. case row of
                           Sc _ \<Rightarrow> Inl IndexError
                         | Tn cols \<Rightarrow>
                             (case sequence_err
                                     (map (\<lambda>col. case col of
                                              Sc _ \<Rightarrow> Inl IndexError
                                            | Tn es \<Rightarrow> (if i < length es then Inr (es ! i)
                                                         else Inl IndexError))
                                          cols) of
                                Inl e \<Rightarrow> Inl e
                              | Inr r \<Rightarrow> Inr (Tn r)))
                       rows) of
             Inl e \<Rightarrow> Inl e
           | Inr r \<Rightarrow> Inr (Tn r)))"

section \<open>Distributions and sample sites (Pyro)\<close>

text \<open>
  \<^verbatim>\<open>dist.Normal(loc, scale)\<close>, \<^verbatim>\<open>dist.Bernoulli(probs)\<close> and \<^verbatim>\<open>d.to_event(k)\<close>, which
  wraps \<^verbatim>\<open>d\<close> so that the rightmost \<^verbatim>\<open>k\<close> batch axes become event axes.
\<close>

datatype dist =
    Normal "real tensor" "real tensor"
  | Bernoulli "real tensor"
  | Independent dist nat

text \<open>Summing the rightmost \<^verbatim>\<open>k\<close> axes of a tensor.\<close>

fun sum_rightmost :: "nat \<Rightarrow> real tensor \<Rightarrow> real tensor" where
  "sum_rightmost k (Sc a) = Sc a"
| "sum_rightmost k (Tn ts) =
     (if ndim (Tn ts) \<le> k then Sc (sum_list (entries (Tn ts)))
      else Tn (map (sum_rightmost k) ts))"

definition normal_log_prob :: "real \<Rightarrow> real \<Rightarrow> real \<Rightarrow> real" where
  "normal_log_prob v loc scale =
     - ((v - loc) ^ 2) / (2 * scale ^ 2) - ln scale - ln (sqrt (2 * pi))"

definition bernoulli_log_prob :: "real \<Rightarrow> real \<Rightarrow> real" where
  "bernoulli_log_prob v p = v * ln p + (1 - v) * ln (1 - p)"

text \<open>
  \<^verbatim>\<open>d.log_prob(value)\<close>: pointwise for the two base distributions; a distribution with
  \<^verbatim>\<open>k\<close> event axes sums the pointwise log-probabilities over these axes and needs at
  least \<^verbatim>\<open>k\<close> axes.
\<close>

fun log_prob :: "dist \<Rightarrow> real tensor \<Rightarrow> error + real tensor" where
  "log_prob (Normal loc scale) v =
     (case tzip v loc of
        Inl e \<Rightarrow> Inl e
      | Inr vl \<Rightarrow>
          (case tzip vl scale of
             Inl e \<Rightarrow> Inl e
           | Inr vls \<Rightarrow> Inr (map_tensor (\<lambda>((v, l), s). normal_log_prob v l s) vls)))"
| "log_prob (Bernoulli probs) v =
     (case tzip v probs of
        Inl e \<Rightarrow> Inl e
      | Inr vp \<Rightarrow> Inr (map_tensor (\<lambda>(v, p). bernoulli_log_prob v p) vp))"
| "log_prob (Independent d k) v =
     (case log_prob d v of
        Inl e \<Rightarrow> Inl e
      | Inr lp \<Rightarrow> (if ndim lp < k then Inl ShapeError else Inr (sum_rightmost k lp)))"

text \<open>
  A reparameterized draw from \<^verbatim>\<open>Normal(loc, scale)\<close>: \<^verbatim>\<open>loc + eps * scale\<close> with
  standard normal noise \<^verbatim>\<open>eps\<close>.
\<close>

definition normal_rsample ::
  "real tensor \<Rightarrow> real tensor \<Rightarrow> real tensor \<Rightarrow> error + real tensor" where
  "normal_rsample loc scale eps =
     (case tzip eps scale of
        Inl e \<Rightarrow> Inl e
      | Inr es \<Rightarrow>
          (case tzip loc es of
             Inl e \<Rightarrow> Inl e
           | Inr les \<Rightarrow> Inr (map_tensor (\<lambda>(l, (e, s)). l + e * s) les)))"

text \<open>
  What a \<^verbatim>\<open>pyro.sample\<close> statement records: the site's name, its distribution, its
  value (the \<^verbatim>\<open>obs\<close> argument when there is one), and the enclosing plate.
\<close>

record site =
  name :: string
  fn :: dist
  site_value :: "real tensor"
  is_observed :: bool
  plate :: "string \<times> nat"

definition site_log_prob :: "site \<Rightarrow> error + real tensor" where
  "site_log_prob s = log_prob (fn s) (site_value s)"

section \<open>Decoder output, model and guide\<close>

definition sigmoid :: "real \<Rightarrow> real" where
  "sigmoid v = 1 / (1 + exp (- v))"

text \<open>
  Both \<^verbatim>\<open>Decoder.forward\<close> end with \<^verbatim>\<open>final = torch.sigmoid(conv_out)\<close>;
  \<^verbatim>\<open>stack\<close> is the layers before it, with their weights.
\<close>

definition decoder_forward ::
  "(real tensor \<Rightarrow> error + real tensor) \<Rightarrow> real tensor \<Rightarrow> error + real tensor" where
  "decoder_forward stack z =
     (case stack z of
        Inl e \<Rightarrow> Inl e
      | Inr conv_out \<Rightarrow> Inr (map_tensor sigmoid conv_out))"

text \<open>
  \<^verbatim>\<open>VAE.model\<close> of rgbd\_pvae\_train.py. \<^verbatim>\<open>z\<close> is what \<^verbatim>\<open>pyro.sample("latent", ...)\<close>
  returns (under SVI, the value drawn by the guide).
\<close>

definition pvae_model ::
  "(real tensor \<Rightarrow> error + real tensor) \<Rightarrow> nat \<Rightarrow> real tensor \<Rightarrow> real tensor
     \<Rightarrow> error + site list" where
  "pvae_model decoder z_dim x z =
     (case shape0 x of
        Inl e \<Rightarrow> Inl e
      | Inr n \<Rightarrow>
          (let z_mu = new_full 0 [n, z_dim];
               z_var = new_full 1 [n, z_dim];
               latent = \<lparr> name = ''latent'', fn = Independent (Normal z_mu z_var) 1,
                          site_value = z, is_observed = False, plate = (''data'', n) \<rparr>
           in (case decoder z of
                 Inl e \<Rightarrow> Inl e
               | Inr x_means \<Rightarrow>
                   Inr [latent,
                        \<lparr> name = ''obs'', fn = Independent (Bernoulli x_means) 3,
                          site_value = x, is_observed = True, plate = (''data'', n) \<rparr>])))"

text \<open>
  \<^verbatim>\<open>VAE.model\<close> of rgbd\_vae.py: the decoder's output is assigned to \<^verbatim>\<open>x\<close> before
  the observation site is declared with \<^verbatim>\<open>obs=x\<close>.
\<close>

definition vae_model ::
  "(real tensor \<Rightarrow> error + real tensor) \<Rightarrow> real tensor \<Rightarrow> real tensor \<Rightarrow> error + site list" where
  "vae_model decoder x z =
     (case shape0 x of
        Inl e \<Rightarrow> Inl e
      | Inr n \<Rightarrow>
          (let z_dim = 300;
               z_mu = new_full 0 [n, z_dim];
               z_var = new_full 1 [n, z_dim];
               latent = \<lparr> name = ''latent'', fn = Independent (Normal z_mu z_var) 1,
                          site_value = z, is_observed = False, plate = (''data'', n) \<rparr>
           in (case decoder z of
                 Inl e \<Rightarrow> Inl e
               | Inr x \<Rightarrow>
                   Inr [latent,
                        \<lparr> name = ''obs'', fn = Independent (Bernoulli x) 3,
                          site_value = x, is_observed = True, plate = (''data'', n) \<rparr>])))"

text \<open>
  \<^verbatim>\<open>VAE.guide\<close> of rgbd\_pvae\_train.py; \<^verbatim>\<open>eps\<close> is the standard normal noise of the
  reparameterized draw.
\<close>

definition pvae_guide ::
  "(real tensor \<Rightarrow> error + (real tensor \<times> real tensor)) \<Rightarrow> real tensor \<Rightarrow> real tensor
     \<Rightarrow> error + site list" where
  "pvae_guide encoder x eps =
     (case shape0 x of
        Inl e \<Rightarrow> Inl e
      | Inr n \<Rightarrow>
          (case encoder x of
             Inl e \<Rightarrow> Inl e
           | Inr (z_mu, z_log_var) \<Rightarrow>
               (let scale = map_tensor exp z_log_var
                in (case normal_rsample z_mu scale eps of
                      Inl e \<Rightarrow> Inl e
                    | Inr z \<Rightarrow>
                        Inr [\<lparr> name = ''latent'', fn = Independent (Normal z_mu scale) 1,
                               site_value = z, is_observed = False,
                               plate = (''data'', n) \<rparr>]))))"

text \<open>\<^verbatim>\<open>VAE.guide\<close> of rgbd\_vae.py: the encoder's single output is split by index.\<close>

definition vae_guide ::
  "(real tensor \<Rightarrow> error + real tensor) \<Rightarrow> real tensor \<Rightarrow> real tensor \<Rightarrow> error + site list" where
  "vae_guide encoder x eps =
     (case shape0 x of
        Inl e \<Rightarrow> Inl e
      | Inr n \<Rightarrow>
          (case encoder x of
             Inl e \<Rightarrow> Inl e
           | Inr params \<Rightarrow>
               (case index_axis2 0 params of
                  Inl e \<Rightarrow> Inl e
                | Inr z_mu \<Rightarrow>
                    (case index_axis2 1 params of
                       Inl e \<Rightarrow> Inl e
                     | Inr z_log_var \<Rightarrow>
                         (let scale = map_tensor exp z_log_var
                          in (case normal_rsample z_mu scale eps of
                                Inl e \<Rightarrow> Inl e
                              | Inr z \<Rightarrow>
                                  Inr [\<lparr> name = ''latent'',
                                         fn = Independent (Normal z_mu scale) 1,
                                         site_value = z, is_observed = False,
                                         plate = (''data'', n) \<rparr>]))))))"

text \<open>The members of a batch: iterating over the first axis.\<close>

fun examples :: "'a tensor \<Rightarrow> 'a tensor list" where
  "examples (Sc _) = []"
| "examples (Tn ts) = ts"

text \<open>The log-density a trace accumulates for a site: all entries of its log-probability.\<close>

definition site_log_prob_sum :: "site \<Rightarrow> error + real" where
  "site_log_prob_sum s =
     (case site_log_prob s of
        Inl e \<Rightarrow> Inl e
      | Inr lp \<Rightarrow> Inr (sum_list (entries lp)))"


section \<open>rgbd\_pvae\_train.py: the epoch loop\<close>

definition NUM_EPOCHS :: nat where
  "NUM_EPOCHS = 300"

definition TEST_FREQUENCY :: nat where
  "TEST_FREQUENCY = 5"

text \<open>What the loop prints and writes to disk, in order.\<close>

datatype 's event =
    PrintTrain nat pyfloat
  | PrintTest nat pyfloat
  | PrintNegative pyfloat
  | PrintSaving nat
  | SaveOptimizer 's
  | SaveWeights 's
  | SaveFig

record 's driver =
  pyro :: 's
  best :: pyfloat
  train_elbo :: "pyfloat list"
  test_elbo :: "pyfloat list"
  out :: "'s event list"

text \<open>
  How one pass through the loop body ends: with an exception, with \<^verbatim>\<open>break\<close>, or by
  going on to the next epoch.
\<close>

datatype 's outcome =
    is_Raised: Raised error (state: "'s driver")
  | is_Break: Break (state: "'s driver")
  | is_Next: Next (state: "'s driver")

text \<open>
  The body of \<^verbatim>\<open>for epoch in range(NUM_EPOCHS)\<close>. After the checkpoint the body plots a
  reconstruction of the first test image, which it moves to the GPU without asking whether
  there is one.
\<close>

definition epoch_body ::
  "('s, 'x) env \<Rightarrow> 'x loader \<Rightarrow> 'x loader \<Rightarrow> nat \<Rightarrow> 's driver \<Rightarrow> 's outcome" where
  "epoch_body E train_loader test_loader epoch d =
     (case train E train_loader (pyro d) of
        Inl e \<Rightarrow> Raised e d
      | Inr (total_epoch_loss_train, s1) \<Rightarrow>
          (let d1 = d\<lparr> pyro := s1,
                       train_elbo := train_elbo d @ [fneg total_epoch_loss_train],
                       out := out d @ [PrintTrain epoch total_epoch_loss_train] \<rparr>
           in if epoch mod TEST_FREQUENCY = 0 then
                (case evaluate E test_loader (set_training E False s1) of
                   Inl e \<Rightarrow> Raised e (d1\<lparr> pyro := set_training E False s1 \<rparr>)
                 | Inr (total_epoch_loss_test, s2) \<Rightarrow>
                     (let s3 = set_training E True s2;
                          d2 = d1\<lparr> pyro := s3,
                                   test_elbo := test_elbo d1 @ [fneg total_epoch_loss_test],
                                   out := out d1 @ [PrintTest epoch total_epoch_loss_test] \<rparr>
                      in if flt total_epoch_loss_test (Fin 0) then
                           Break (d2\<lparr> out := out d2 @ [PrintNegative total_epoch_loss_test] \<rparr>)
                         else
                           (let d3 = (if flt total_epoch_loss_test (best d2)
                                      then d2\<lparr> best := total_epoch_loss_test,
                                               out := out d2 @ [PrintSaving epoch,
                                                                SaveOptimizer s3,
                                                                SaveWeights s3] \<rparr>
                                      else d2)
                            in if cuda_available E
                               then Next (d3\<lparr> pyro := reconstruct_state E (pyro d3),
                                              out := out d3 @ [SaveFig] \<rparr>)
                               else Raised CudaUnavailable d3)))
              else Next d1))"

fun epoch_loop ::
  "('s, 'x) env \<Rightarrow> 'x loader \<Rightarrow> 'x loader \<Rightarrow> nat list \<Rightarrow> 's driver \<Rightarrow> 's outcome" where
  "epoch_loop E train_loader test_loader [] d = Next d"
| "epoch_loop E train_loader test_loader (epoch # epochs) d =
     (case epoch_body E train_loader test_loader epoch d of
        Raised e d' \<Rightarrow> Raised e d'
      | Break d' \<Rightarrow> Break d'
      | Next d' \<Rightarrow> epoch_loop E train_loader test_loader epochs d')"

text \<open>The state before the loop: \<^verbatim>\<open>best = float('inf')\<close>, \<^verbatim>\<open>vae.train()\<close>.\<close>

definition initial_driver :: "('s, 'x) env \<Rightarrow> 's \<Rightarrow> 's driver" where
  "initial_driver E s0 =
     \<lparr> pyro = set_training E True s0, best = PInf, train_elbo = [], test_elbo = [],
       out = [] \<rparr>"

definition main :: "('s, 'x) env \<Rightarrow> 'x loader \<Rightarrow> 'x loader \<Rightarrow> 's \<Rightarrow> 's outcome" where
  "main E train_loader test_loader s0 =
     epoch_loop E train_loader test_loader [0 ..< NUM_EPOCHS] (initial_driver E s0)"

subsection \<open>Reading the log\<close>

text \<open>The evaluations a log reports, the epochs it announces a checkpoint for, and the
  snapshots it writes.\<close>

definition evaluated :: "'s event list \<Rightarrow> (nat \<times> pyfloat) list" where
  "evaluated evs = concat (map (\<lambda>ev. case ev of PrintTest e l \<Rightarrow> [(e, l)] | _ \<Rightarrow> []) evs)"

definition checkpoint_epochs :: "'s event list \<Rightarrow> nat list" where
  "checkpoint_epochs evs = concat (map (\<lambda>ev. case ev of PrintSaving e \<Rightarrow> [e] | _ \<Rightarrow> []) evs)"

definition saved_optimizers :: "'s event list \<Rightarrow> 's list" where
  "saved_optimizers evs = concat (map (\<lambda>ev. case ev of SaveOptimizer s \<Rightarrow> [s] | _ \<Rightarrow> []) evs)"

definition saved_weights :: "'s event list \<Rightarrow> 's list" where
  "saved_weights evs = concat (map (\<lambda>ev. case ev of SaveWeights s \<Rightarrow> [s] | _ \<Rightarrow> []) evs)"

subsection \<open>The checkpoint policy in the specification's words\<close>

text \<open>
  The watermark is the minimum of the losses seen so far, starting from plus infinity: it is
  plus infinity or one of them, it is a number, and none of them compares below it.
\<close>

definition spec_watermark :: "pyfloat \<Rightarrow> pyfloat list \<Rightarrow> bool" where
  "spec_watermark b ls =
     ((b = PInf \<or> b \<in> set ls) \<and> b \<noteq> NaN \<and> list_all (\<lambda>l. \<not> flt l b) ls)"

text \<open>
  A loss improves when it is strictly lower than plus infinity and than every number seen
  before it.
\<close>

definition spec_improves :: "pyfloat \<Rightarrow> pyfloat list \<Rightarrow> bool" where
  "spec_improves l prev = (flt l PInf \<and> list_all (\<lambda>l'. l' = NaN \<or> flt l l') prev)"

definition spec_improvements :: "(nat \<times> pyfloat) list \<Rightarrow> (nat \<times> pyfloat) list" where
  "spec_improvements evs =
     map (\<lambda>i. evs ! i)
       (filter (\<lambda>i. spec_improves (snd (evs ! i)) (map snd (take i evs))) [0 ..< length evs])"

text \<open>The evaluations whose loss does not compare below zero.\<close>

definition not_negative :: "(nat \<times> pyfloat) list \<Rightarrow> (nat \<times> pyfloat) list" where
  "not_negative evs = filter (\<lambda>(e, l). \<not> flt l (Fin 0)) evs"

text \<open>
  The policy as a property of a driver state: the watermark is the minimum of the
  evaluation losses printed so far that are not negative, checkpoints were announced at
  exactly the improving ones among them, and each checkpoint wrote the optimizer state and
  the weights.
\<close>

definition policy_inv :: "'s driver \<Rightarrow> bool" where
  "policy_inv d =
     (spec_watermark (best d) (map snd (not_negative (evaluated (out d))))
      \<and> checkpoint_epochs (out d) = map fst (spec_improvements (not_negative (evaluated (out d))))
      \<and> saved_optimizers (out d) = saved_weights (out d)
      \<and> length (saved_weights (out d)) = length (checkpoint_epochs (out d)))"

section \<open>Properties of train and evaluate\<close>

lemma vae_train_loop_raises:
  "bs \<noteq> [] \<Longrightarrow> vae_train_loop E bs acc s = Inl (AttributeError ''torch.cuda'' ''is_availabe'')"
  by (cases bs) (auto simp: torch_cuda_call_def)

lemma vae_evaluate_loop_raises:
  "bs \<noteq> [] \<Longrightarrow> vae_evaluate_loop E bs acc s = Inl (AttributeError ''torch.cuda'' ''is_availabe'')"
  by (cases bs) (auto simp: torch_cuda_call_def)

text \<open>
  Claim C10. In rgbd\_vae.py, \<^verbatim>\<open>train\<close> and \<^verbatim>\<open>evaluate\<close> called with a loader that yields
  at least one minibatch raise AttributeError (\<^verbatim>\<open>torch.cuda\<close> has no attribute
  \<^verbatim>\<open>is_availabe\<close>) at the first minibatch, whatever the environment, the state, the
  remaining minibatches and the dataset length: no SVI step or loss evaluation has run, and
  neither function returns a loss.
\<close>

theorem vae_train_evaluate_raise:
  assumes "batches ld \<noteq> []"
  shows "vae_train E ld s = Inl (AttributeError ''torch.cuda'' ''is_availabe'')
       \<and> vae_evaluate E ld s = Inl (AttributeError ''torch.cuda'' ''is_availabe'')
       \<and> (\<forall>r. vae_train E ld s \<noteq> Inr r) \<and> (\<forall>r. vae_evaluate E ld s \<noteq> Inr r)"
  using assms
  by (simp add: vae_train_def vae_evaluate_def vae_train_loop_raises vae_evaluate_loop_raises)

theorem vae_train_evaluate_raise_witness:
  "batches \<lparr>batches = [(0::nat, ())], dataset_len = 1\<rparr> \<noteq> []
   \<and> vae_train (counting_env True (\<lambda>s. Fin 1)) \<lparr>batches = [(0, ())], dataset_len = 1\<rparr> 0
       = Inl (AttributeError ''torch.cuda'' ''is_availabe'')
   \<and> vae_evaluate (counting_env True (\<lambda>s. Fin 1)) \<lparr>batches = [(0, ())], dataset_len = 1\<rparr> 0
       = Inl (AttributeError ''torch.cuda'' ''is_availabe'')"
  using vae_train_evaluate_raise
    [of "\<lparr>batches = [(0::nat, ())], dataset_len = 1\<rparr>" "counting_env True (\<lambda>s. Fin 1)" 0]
  by simp

text \<open>
  Claim C5 (the code departs from it). In rgbd\_pvae\_train.py the SVI step of \<^verbatim>\<open>train\<close>
  sits inside the CUDA branch: on a host without CUDA a loader with one minibatch leads to no
  step at all (the step counter stays 0 and the accumulator stays 0), while with CUDA the
  same loader leads to one step.
\<close>

theorem train_without_cuda_skips_step:
  "train (counting_env False (\<lambda>s. Fin 1)) \<lparr>batches = [0], dataset_len = 1\<rparr> 0 = Inr (Fin 0, 0)
   \<and> train (counting_env True (\<lambda>s. Fin 1)) \<lparr>batches = [0], dataset_len = 1\<rparr> 0 = Inr (Fin 1, 1)"
  by (simp add: train_def counting_env_def torch_cuda_call_def)

lemma train_loop_no_cuda:
  "\<not> cuda_available E \<Longrightarrow> train_loop E bs acc s = Inr (acc, s)"
  by (induction bs) (auto simp: torch_cuda_call_def)

lemma evaluate_loop_steps_always:
  "evaluate_loop E (x # xs) acc s =
     (let x' = (if cuda_available E then cuda E x else x);
          (l, s') = svi_evaluate_loss E x' s
      in evaluate_loop E xs (fadd acc l) s')"
  by (simp add: torch_cuda_call_def)

section \<open>Shapes through the encoders and decoders\<close>

lemma upt_0_5: "[0..<5] = [0, 1, 2, 3, 4]"
  by (simp add: upt_rec)

lemma upt_2_5: "[2..<5] = [2, 3, 4]"
  by (simp add: upt_rec)

lemma upt_0_2: "[0..<2] = [0, Suc 0]"
  by (simp add: upt_rec)

lemmas layer_defs = flatten_from_def linear_def leaky_relu_def relu_def sigmoid_shape_def

text \<open>
  The networks of rgbd\_pvae\_train.py are sized for 128x128 images: five stride-2
  convolutions take 128 to 4, the grid the linear heads expect, and five upsamplings take the
  4x4 grid back to 128.
\<close>

lemma pvae_encoder_128:
  "0 < n \<Longrightarrow> pvae_encoder training z_dim [n, 4, 128, 128] = Inr ([n, z_dim], [n, z_dim])"
  by (simp add: pvae_encoder_def pvae_encoder_convs_def pvae_encoder_depths_def layer_defs upt_0_5)

lemma pvae_decoder_128:
  "0 < n \<Longrightarrow> pvae_decoder training z_dim [n, z_dim] = Inr [n, 4, 128, 128]"
  by (simp add: pvae_decoder_def pvae_decoder_convs_def pvae_decoder_depths_def layer_defs upt_0_5)

text \<open>
  The networks of rgbd\_vae.py are sized for 216x216 images and a latent of 300 entries;
  the encoder returns one tensor of shape (N, 300, 2).
\<close>

lemma vae_encoder_216:
  "vae_encoder [n, 4, 216, 216] = Inr [n, 300, 2]"
  by (simp add: vae_encoder_def vae_encoder_convs_def vae_encoder_depths_def res_block_def
      layer_defs upt_0_5)

lemma vae_decoder_216:
  "vae_decoder [n, 300] = Inr [n, 4, 216, 216]"
  by (simp add: vae_decoder_def vae_decoder_convs_def vae_decoder_depths_def res_block_def
      layer_defs upt_0_2 upt_2_5)

lemma vae_decoder_other_dim:
  "d \<noteq> 300 \<Longrightarrow> vae_decoder [n, d] = Inl ShapeError"
  by (simp add: vae_decoder_def)

text \<open>
  Claim C3 (the code departs from it). The Encoder of rgbd\_pvae\_train.py, whose comment
  reads "Input is 216*216", raises on every batch of shape (N, 4, 216, 216), in training
  and in evaluation mode and for every latent dimensionality: the convolutions leave a 6x6
  grid, so the flattened features have 512 * 36 = 18432 entries where both linear heads
  take 512 * 4 ** 2 = 8192.
\<close>

theorem pvae_encoder_raises_on_216:
  "pvae_encoder training z_dim [n, 4, 216, 216] = Inl ShapeError
   \<and> sequential (pvae_encoder_convs True @ [flatten_from 1]) [1, 4, 216, 216] = Inr [1, 18432]
   \<and> last pvae_encoder_depths * 4 ^ 2 = 8192"
  by (simp add: pvae_encoder_def pvae_encoder_convs_def pvae_encoder_depths_def layer_defs upt_0_5)

text \<open>
  Claim C4 (the code departs from it). The Decoder of rgbd\_pvae\_train.py with the
  script's latent dimensionality 400 maps a latent batch of shape (1, 400) to a tensor of
  shape (1, 4, 128, 128), not (1, 4, 216, 216).
\<close>

theorem pvae_decoder_output_is_128:
  "pvae_decoder True 400 [1, 400] = Inr [1, 4, 128, 128]
   \<and> pvae_decoder True 400 [1, 400] \<noteq> Inr [1, 4, 216, 216]"
  by (simp add: pvae_decoder_def pvae_decoder_convs_def pvae_decoder_depths_def layer_defs upt_0_5)

section \<open>The decoder's output, the model's observation and the guide's scale\<close>

lemma sigmoid_bounds: "0 < sigmoid v \<and> sigmoid v < 1"
proof -
  have e: "0 < exp (- v)" by simp
  then have p: "0 < 1 + exp (- v)" by linarith
  show ?thesis unfolding sigmoid_def using e p by (simp add: field_simps)
qed

lemma sigmoid_0: "sigmoid 0 = 1 / 2"
  by (simp add: sigmoid_def)

text \<open>Over the reals every entry of a decoder output lies strictly between 0 and 1.\<close>

lemma decoder_forward_unit_interval:
  assumes "decoder_forward stack z = Inr final"
  shows "\<forall>p \<in> set_tensor final. 0 < p \<and> p < 1"
  using assms sigmoid_bounds
  by (auto simp: decoder_forward_def tensor.set_map split: sum.splits)

lemma map_tensor_new_full: "map_tensor f (new_full v ns) = new_full (f v) ns"
  by (induction ns) auto

lemma new_full_neq: "0 \<notin> set ns \<Longrightarrow> v \<noteq> w \<Longrightarrow> new_full v ns \<noteq> new_full w ns"
  by (induction ns) auto

text \<open>In rgbd\_pvae\_train.py the observation site holds the batch passed to the model.\<close>

lemma pvae_model_obs:
  assumes "pvae_model decoder z_dim x z = Inr sites"
  shows "map name sites = [''latent'', ''obs''] \<and> site_value (sites ! 1) = x
       \<and> is_observed (sites ! 1)"
  using assms by (auto simp: pvae_model_def Let_def split: sum.splits)

text \<open>In rgbd\_vae.py it holds the decoder's output, whatever the batch.\<close>

lemma vae_model_obs:
  assumes "vae_model decoder x z = Inr sites"
  shows "map name sites = [''latent'', ''obs'']
       \<and> decoder z = Inr (site_value (sites ! 1)) \<and> is_observed (sites ! 1)"
  using assms by (auto simp: vae_model_def Let_def split: sum.splits)

text \<open>
  Claim C1 (the code departs from it). \<^verbatim>\<open>VAE.model\<close> of rgbd\_vae.py, called on an
  all-zero batch of shape (1, 4, 216, 216) with a decoder whose layers before the sigmoid
  give zeros, declares the observation site with value 1/2 everywhere, the decoder's
  output, and not with the batch.
\<close>

theorem vae_model_observes_decoder_output:
  "vae_model (decoder_forward (\<lambda>z. Inr (new_full 0 [1, 4, 216, 216])))
     (new_full 0 [1, 4, 216, 216]) (new_full 0 [1, 300])
   = Inr [\<lparr> name = ''latent'',
             fn = Independent (Normal (new_full 0 [1, 300]) (new_full 1 [1, 300])) 1,
             site_value = new_full 0 [1, 300], is_observed = False, plate = (''data'', 1) \<rparr>,
          \<lparr> name = ''obs'',
             fn = Independent (Bernoulli (new_full (1 / 2) [1, 4, 216, 216])) 3,
             site_value = new_full (1 / 2) [1, 4, 216, 216], is_observed = True,
             plate = (''data'', 1) \<rparr>]
   \<and> new_full (1 / 2) [1, 4, 216, 216] \<noteq> (new_full 0 [1, 4, 216, 216] :: real tensor)"
proof -
  have a: "shape0 (new_full (0::real) [1, 4, 216, 216]) = Inr 1" by simp
  have b: "decoder_forward (\<lambda>z. Inr (new_full 0 [1, 4, 216, 216])) (new_full 0 [1, 300])
           = Inr (new_full (1 / 2) [1, 4, 216, 216])"
    unfolding decoder_forward_def by (simp only: sum.case map_tensor_new_full sigmoid_0)
  have c: "new_full (1 / 2) [1, 4, 216, 216] \<noteq> (new_full 0 [1, 4, 216, 216] :: real tensor)"
    by (rule new_full_neq) simp_all
  show ?thesis unfolding vae_model_def a b using c by (simp add: Let_def del: new_full.simps)
qed

text \<open>
  The scale handed to the guide's Normal is the exponential of the encoder's second output,
  so it is strictly positive.
\<close>

lemma pvae_guide_scale:
  assumes "pvae_guide encoder x eps = Inr sites" "encoder x = Inr (z_mu, z_log_var)"
  shows "map fn sites = [Independent (Normal z_mu (map_tensor exp z_log_var)) 1]
       \<and> (\<forall>s \<in> set_tensor (map_tensor exp z_log_var). 0 < s)"
  using assms by (auto simp: pvae_guide_def Let_def tensor.set_map split: sum.splits)

lemma sqrt_exp_2: "sqrt (exp (2::real)) = exp 1"
proof -
  have "exp (2::real) = exp 1 * exp 1"
    by (simp add: exp_add [symmetric])
  then show ?thesis by simp
qed

text \<open>
  Claim C2 (the code departs from it). With encoder outputs mu = 0 and log(var) = 2 and
  noise 1, both guides give the Normal the scale exp(2) and draw the latent
  0 + 1 * exp(2); the standard deviation of a variance exp(2) is exp(2 / 2) = sqrt(exp(2)),
  a different number.
\<close>

theorem guide_scale_is_exp_log_var:
  "pvae_guide (\<lambda>x. Inr (Tn [Tn [Sc 0]], Tn [Tn [Sc 2]])) (new_full 0 [1, 4, 128, 128])
     (Tn [Tn [Sc 1]])
   = Inr [\<lparr> name = ''latent'',
             fn = Independent (Normal (Tn [Tn [Sc 0]]) (Tn [Tn [Sc (exp 2)]])) 1,
             site_value = Tn [Tn [Sc (exp 2)]], is_observed = False, plate = (''data'', 1) \<rparr>]
   \<and> vae_guide (\<lambda>x. Inr (Tn [Tn [Tn [Sc 0, Sc 2]]])) (new_full 0 [1, 4, 216, 216])
     (Tn [Tn [Sc 1]])
   = Inr [\<lparr> name = ''latent'',
             fn = Independent (Normal (Tn [Tn [Sc 0]]) (Tn [Tn [Sc (exp 2)]])) 1,
             site_value = Tn [Tn [Sc (exp 2)]], is_observed = False, plate = (''data'', 1) \<rparr>]
   \<and> exp (2::real) \<noteq> exp (2 / 2) \<and> exp (2::real) \<noteq> sqrt (exp 2)"
  using sqrt_exp_2
  by (simp add: pvae_guide_def vae_guide_def index_axis2_def normal_rsample_def Let_def)

section \<open>Log-densities of sites with event axes\<close>

text \<open>
  Facts about tensors of a known shape: pairing succeeds, entries are paired in order, and
  summing the rightmost axes below the batch axis leaves one number per example.
\<close>

lemma sequence_err_map_Inr: "sequence_err (map Inr ys) = Inr ys"
  by (induction ys) auto

lemma has_shape_Cons_iff:
  "has_shape (n # ns) t \<longleftrightarrow> (\<exists>ts. t = Tn ts \<and> length ts = n \<and> (\<forall>u \<in> set ts. has_shape ns u))"
  by (cases t) (auto simp: list_all_iff)

lemma has_shape_Nil_iff: "has_shape [] t \<longleftrightarrow> (\<exists>a. t = Sc a)"
  by (cases t) auto

lemma entries_map_tensor: "entries (map_tensor f t) = map f (entries t)"
  by (induction t) (auto simp: map_concat intro: arg_cong [where f = concat])

lemma has_shape_map_tensor: "has_shape ns (map_tensor f t) = has_shape ns t"
proof (induction ns arbitrary: t)
  case Nil
  show ?case by (cases t) auto
next
  case (Cons n ns)
  then show ?case by (cases t) (auto simp: list_all_iff)
qed

lemma sum_list_const: "\<forall>x \<in> set xs. f x = (c::nat) \<Longrightarrow> sum_list (map f xs) = length xs * c"
  by (induction xs) auto

lemma ndim_has_shape: "has_shape ns t \<Longrightarrow> 0 \<notin> set ns \<Longrightarrow> ndim t = length ns"
proof (induction ns arbitrary: t)
  case Nil
  then show ?case by (auto simp: has_shape_Nil_iff)
next
  case (Cons n ns)
  then obtain ts where t: "t = Tn ts" "length ts = n" "\<forall>u \<in> set ts. has_shape ns u"
    by (auto simp: has_shape_Cons_iff)
  with Cons.prems obtain u us where "ts = u # us" by (cases ts) auto
  with t Cons show ?case by auto
qed

lemma length_entries: "has_shape ns t \<Longrightarrow> length (entries t) = prod_list ns"
proof (induction ns arbitrary: t)
  case Nil
  then show ?case by (auto simp: has_shape_Nil_iff)
next
  case (Cons n ns)
  then obtain ts where t: "t = Tn ts" "length ts = n" "\<forall>u \<in> set ts. has_shape ns u"
    by (auto simp: has_shape_Cons_iff)
  have "sum_list (map (length \<circ> entries) ts) = length ts * prod_list ns"
    using t Cons.IH by (intro sum_list_const) auto
  then show ?case using t by (simp add: length_concat comp_def)
qed

lemma zip_concat_map:
  assumes "length as = length bs"
    and "\<forall>(a, b) \<in> set (zip as bs). length (f a) = length (g b)"
  shows "zip (concat (map f as)) (concat (map g bs))
       = concat (map (\<lambda>(a, b). zip (f a) (g b)) (zip as bs))"
  using assms by (induction as bs rule: list_induct2) auto

lemma tzip_has_shape:
  "has_shape ns a \<Longrightarrow> has_shape ns b \<Longrightarrow>
     tzip a b = Inr (projr (tzip a b)) \<and> has_shape ns (projr (tzip a b))
     \<and> entries (projr (tzip a b)) = zip (entries a) (entries b)
     \<and> examples (projr (tzip a b)) = map (\<lambda>(a, b). projr (tzip a b)) (zip (examples a) (examples b))"
proof (induction ns arbitrary: a b)
  case Nil
  then show ?case by (auto simp: has_shape_Nil_iff)
next
  case (Cons n ns)
  from Cons.prems obtain as where a: "a = Tn as" "length as = n" "\<forall>u \<in> set as. has_shape ns u"
    by (auto simp: has_shape_Cons_iff)
  from Cons.prems obtain bs where b: "b = Tn bs" "length bs = n" "\<forall>u \<in> set bs. has_shape ns u"
    by (auto simp: has_shape_Cons_iff)
  let ?ts = "map (\<lambda>(a, b). projr (tzip a b)) (zip as bs)"
  have each: "\<forall>(u, v) \<in> set (zip as bs). tzip u v = Inr (projr (tzip u v))
        \<and> has_shape ns (projr (tzip u v))
        \<and> entries (projr (tzip u v)) = zip (entries u) (entries v)"
  proof (clarify)
    fix u v assume "(u, v) \<in> set (zip as bs)"
    then have "u \<in> set as" "v \<in> set bs"
      by (auto dest: set_zip_leftD set_zip_rightD)
    then have "has_shape ns u" "has_shape ns v" using a b by auto
    from Cons.IH [OF this]
    show "tzip u v = Inr (projr (tzip u v)) \<and> has_shape ns (projr (tzip u v))
        \<and> entries (projr (tzip u v)) = zip (entries u) (entries v)" by blast
  qed
  have "map (\<lambda>(f, b). f b) (zip (map tzip as) bs) = map (\<lambda>(u, v). tzip u v) (zip as bs)"
    by (simp add: zip_map1 case_prod_unfold)
  also have "\<dots> = map Inr ?ts"
    using each by auto
  finally have m: "map (\<lambda>(f, b). f b) (zip (map tzip as) bs) = map Inr ?ts" .
  have "sequence_err (map (\<lambda>(f, b). f b) (zip (map tzip as) bs)) = Inr ?ts"
    unfolding m by (rule sequence_err_map_Inr)
  then have z: "tzip a b = Inr (Tn ?ts)"
    using a b by simp
  have sh: "has_shape (n # ns) (Tn ?ts)"
    using each a b by (auto simp: list_all_iff)
  have len: "\<forall>(u, v) \<in> set (zip as bs). length (entries u) = length (entries v)"
  proof (clarify)
    fix u v assume "(u, v) \<in> set (zip as bs)"
    then have "u \<in> set as" "v \<in> set bs"
      by (auto dest: set_zip_leftD set_zip_rightD)
    then have "has_shape ns u" "has_shape ns v" using a b by auto
    then show "length (entries u) = length (entries v)" by (simp add: length_entries)
  qed
  have "entries (Tn ?ts) = concat (map (\<lambda>(u, v). zip (entries u) (entries v)) (zip as bs))"
    using each by (auto intro!: arg_cong [where f = concat])
  also have "\<dots> = zip (entries a) (entries b)"
    using a b zip_concat_map [of as bs entries entries, OF _ len] by simp
  finally show ?case using z sh a b by simp
qed


lemma examples_map_tensor: "examples (map_tensor f t) = map (map_tensor f) (examples t)"
  by (cases t) auto

lemma examples_has_shape:
  "has_shape (n # ns) t \<Longrightarrow> length (examples t) = n \<and> (\<forall>u \<in> set (examples t). has_shape ns u)"
  by (auto simp: has_shape_Cons_iff)

lemma sum_rightmost_event:
  "has_shape ns t \<Longrightarrow> 0 \<notin> set ns \<Longrightarrow> sum_rightmost (length ns) t = Sc (sum_list (entries t))"
  using ndim_has_shape [of ns t] by (cases t) (auto simp: has_shape_Nil_iff)

lemma sum_rightmost_batch:
  assumes "has_shape (n # ns) t" "0 < n" "0 \<notin> set ns"
  shows "sum_rightmost (length ns) t = Tn (map (\<lambda>u. Sc (sum_list (entries u))) (examples t))"
proof -
  from assms obtain ts where t: "t = Tn ts" "\<forall>u \<in> set ts. has_shape ns u"
    by (auto simp: has_shape_Cons_iff)
  have "ndim t = Suc (length ns)"
    using ndim_has_shape [of "n # ns" t] assms by simp
  then show ?thesis
    using t assms(3) by (simp add: sum_rightmost_event)
qed

lemma log_prob_pointwise_event:
  assumes t: "has_shape (n # ns) t" and pos: "0 < n" "0 \<notin> set ns"
  shows "(if ndim (map_tensor f t) < length ns then Inl ShapeError
          else Inr (sum_rightmost (length ns) (map_tensor f t)))
       = Inr (Tn (map (\<lambda>u. Sc (sum_list (map f (entries u)))) (examples t)))"
proof -
  have sh: "has_shape (n # ns) (map_tensor f t)"
    using t by (simp add: has_shape_map_tensor)
  then have "ndim (map_tensor f t) = Suc (length ns)"
    using ndim_has_shape [of "n # ns"] pos by simp
  then show ?thesis
    using sum_rightmost_batch [OF sh pos]
    by (simp add: examples_map_tensor entries_map_tensor comp_def)
qed

lemma log_prob_bernoulli_event:
  assumes x: "has_shape (n # ns) x" and p: "has_shape (n # ns) p" and pos: "0 < n" "0 \<notin> set ns"
  shows "log_prob (Independent (Bernoulli p) (length ns)) x
       = Inr (Tn (map (\<lambda>(xi, pi). Sc (\<Sum>(v, q) \<leftarrow> zip (entries xi) (entries pi).
                                          bernoulli_log_prob v q))
                      (zip (examples x) (examples p))))"
proof -
  from tzip_has_shape [OF x p]
  obtain t where z: "tzip x p = Inr t" and sh: "has_shape (n # ns) t"
    and ex: "examples t = map (\<lambda>(a, b). projr (tzip a b)) (zip (examples x) (examples p))"
    by metis
  have each: "\<forall>(xi, pi) \<in> set (zip (examples x) (examples p)).
                entries (projr (tzip xi pi)) = zip (entries xi) (entries pi)"
  proof (clarify)
    fix xi pi assume "(xi, pi) \<in> set (zip (examples x) (examples p))"
    then have "xi \<in> set (examples x)" "pi \<in> set (examples p)"
      by (auto dest: set_zip_leftD set_zip_rightD)
    then have "has_shape ns xi" "has_shape ns pi"
      using examples_has_shape [OF x] examples_has_shape [OF p] by auto
    from tzip_has_shape [OF this]
    show "entries (projr (tzip xi pi)) = zip (entries xi) (entries pi)" by blast
  qed
  have "log_prob (Independent (Bernoulli p) (length ns)) x
      = Inr (Tn (map (\<lambda>u. Sc (sum_list (map (\<lambda>(v, q). bernoulli_log_prob v q) (entries u))))
                     (examples t)))"
    using log_prob_pointwise_event [OF sh pos, of "\<lambda>(v, q). bernoulli_log_prob v q"]
    by (simp add: z)
  also have "\<dots> = Inr (Tn (map (\<lambda>(xi, pi). Sc (\<Sum>(v, q) \<leftarrow> zip (entries xi) (entries pi).
                                          bernoulli_log_prob v q))
                      (zip (examples x) (examples p))))"
    using each unfolding ex by auto
  finally show ?thesis .
qed

lemma log_prob_normal_event:
  assumes v: "has_shape (n # ns) v" and l: "has_shape (n # ns) loc"
    and s: "has_shape (n # ns) scale" and pos: "0 < n" "0 \<notin> set ns"
  shows "log_prob (Independent (Normal loc scale) (length ns)) v
       = Inr (Tn (map (\<lambda>((vi, li), si).
                        Sc (\<Sum>((a, m), d) \<leftarrow> zip (zip (entries vi) (entries li)) (entries si).
                              normal_log_prob a m d))
                      (zip (zip (examples v) (examples loc)) (examples scale))))"
proof -
  from tzip_has_shape [OF v l]
  obtain vl where z1: "tzip v loc = Inr vl" and sh1: "has_shape (n # ns) vl"
    and ex1: "examples vl = map (\<lambda>(a, b). projr (tzip a b)) (zip (examples v) (examples loc))"
    by metis
  from tzip_has_shape [OF sh1 s]
  obtain t where z: "tzip vl scale = Inr t" and sh: "has_shape (n # ns) t"
    and ex: "examples t = map (\<lambda>(a, b). projr (tzip a b)) (zip (examples vl) (examples scale))"
    by metis
  have each: "\<forall>((vi, li), si) \<in> set (zip (zip (examples v) (examples loc)) (examples scale)).
                entries (projr (tzip (projr (tzip vi li)) si))
                = zip (zip (entries vi) (entries li)) (entries si)"
  proof (clarify)
    fix vi li si assume a: "((vi, li), si) \<in> set (zip (zip (examples v) (examples loc)) (examples scale))"
    then have "(vi, li) \<in> set (zip (examples v) (examples loc))" "si \<in> set (examples scale)"
      by (auto dest: set_zip_leftD set_zip_rightD)
    then have "vi \<in> set (examples v)" "li \<in> set (examples loc)" "si \<in> set (examples scale)"
      by (auto dest: set_zip_leftD set_zip_rightD)
    then have h: "has_shape ns vi" "has_shape ns li" "has_shape ns si"
      using examples_has_shape [OF v] examples_has_shape [OF l] examples_has_shape [OF s] by auto
    from tzip_has_shape [OF h(1) h(2)]
    have 1: "has_shape ns (projr (tzip vi li))"
      "entries (projr (tzip vi li)) = zip (entries vi) (entries li)" by blast+
    from tzip_has_shape [OF 1(1) h(3)]
    have "entries (projr (tzip (projr (tzip vi li)) si))
                = zip (entries (projr (tzip vi li))) (entries si)" by blast
    then show "entries (projr (tzip (projr (tzip vi li)) si))
                = zip (zip (entries vi) (entries li)) (entries si)" by (simp only: 1(2))
  qed
  have "log_prob (Independent (Normal loc scale) (length ns)) v
      = Inr (Tn (map (\<lambda>u. Sc (sum_list (map (\<lambda>((a, m), d). normal_log_prob a m d) (entries u))))
                     (examples t)))"
    using log_prob_pointwise_event [OF sh pos, of "\<lambda>((a, m), d). normal_log_prob a m d"]
    by (simp add: z z1)
  also have "\<dots> = Inr (Tn (map (\<lambda>((vi, li), si).
                        Sc (\<Sum>((a, m), d) \<leftarrow> zip (zip (entries vi) (entries li)) (entries si).
                              normal_log_prob a m d))
                      (zip (zip (examples v) (examples loc)) (examples scale))))"
    using each unfolding ex ex1 by (auto simp: zip_map1)
  finally show ?thesis .
qed

lemma has_shape_new_full: "has_shape ns (new_full c ns)"
  by (induction ns) (auto simp: list_all_iff)

lemma entries_new_full_1: "entries (new_full c [d]) = replicate d c"
  by (induction d) auto

lemma normal_rsample_has_shape:
  assumes "has_shape ns loc" "has_shape ns scale" "has_shape ns eps"
  shows "\<exists>zg. normal_rsample loc scale eps = Inr zg \<and> has_shape ns zg"
proof -
  from tzip_has_shape [OF assms(3) assms(2)]
  obtain es where es: "tzip eps scale = Inr es" "has_shape ns es" by metis
  from tzip_has_shape [OF assms(1) es(2)]
  obtain les where les: "tzip loc es = Inr les" "has_shape ns les" by metis
  show ?thesis
    using es les by (simp add: normal_rsample_def has_shape_map_tensor)
qed

lemma prior_log_prob:
  assumes z: "has_shape [N, D] z" and pos: "0 < N" "0 < D"
  shows "log_prob (Independent (Normal (new_full 0 [N, D]) (new_full 1 [N, D])) 1) z
       = Inr (Tn (map (\<lambda>zi. Sc (\<Sum>v \<leftarrow> entries zi. normal_log_prob v 0 1)) (examples z)))"
proof -
  have len: "length (examples z) = N" and each: "\<forall>zi \<in> set (examples z). has_shape [D] zi"
    using examples_has_shape [OF z] by auto
  have inner: "\<forall>zi \<in> set (examples z).
      (\<Sum>((a, m), d) \<leftarrow> zip (zip (entries zi) (replicate D 0)) (replicate D 1).
          normal_log_prob a m d) = (\<Sum>v \<leftarrow> entries zi. normal_log_prob v 0 1)"
  proof
    fix zi assume "zi \<in> set (examples z)"
    then have "length (entries zi) = D" using each length_entries [of "[D]" zi] by auto
    then show "(\<Sum>((a, m), d) \<leftarrow> zip (zip (entries zi) (replicate D 0)) (replicate D 1).
          normal_log_prob a m d) = (\<Sum>v \<leftarrow> entries zi. normal_log_prob v 0 1)"
      by (simp add: zip_replicate2 comp_def)
  qed
  have "log_prob (Independent (Normal (new_full 0 [N, D]) (new_full 1 [N, D])) (length [D])) z
      = Inr (Tn (map (\<lambda>((vi, li), si).
                        Sc (\<Sum>((a, m), d) \<leftarrow> zip (zip (entries vi) (entries li)) (entries si).
                              normal_log_prob a m d))
                      (zip (zip (examples z) (examples (new_full (0::real) [N, D])))
                           (examples (new_full (1::real) [N, D])))))"
    using pos by (intro log_prob_normal_event [OF z]) (simp_all add: has_shape_new_full del: new_full.simps)
  also have "(zip (zip (examples z) (examples (new_full (0::real) [N, D])))
                           (examples (new_full (1::real) [N, D])))
           = map (\<lambda>zi. ((zi, new_full 0 [D]), new_full 1 [D])) (examples z)"
    using len by (simp add: zip_replicate2)
  finally show ?thesis
    using inner by (simp add: comp_def entries_new_full_1 del: new_full.simps cong: map_cong)
qed


lemma entries_Tn_map_Sc: "entries (Tn (map (\<lambda>u. Sc (f u)) xs)) = map f xs"
  by (induction xs) auto

lemma entries_Tn_map_Sc_pair:
  "entries (Tn (map (\<lambda>(a, b). Sc (f a b)) xs)) = map (\<lambda>(a, b). f a b) xs"
  by (induction xs) auto

text \<open>
  Claim C8. For a batch \<^verbatim>\<open>x\<close> and decoder output of shape (N, 4, H, W) and latents of shape
  (N, D), with N, H, W, D positive: the log-probability of the model's observation site is a
  tensor with one number per example, the sum of the Bernoulli log-probabilities of the
  4 * H * W entries of that example; the log-probability of the latent site is, per example,
  the sum of the D Normal log-probabilities, under the prior of the model and under the
  Normal of the guide; and the log-density a site contributes for the batch is the sum of
  these per-example numbers.
\<close>

theorem event_log_densities:
  assumes x: "has_shape [N, 4, H, W] x"
    and dec: "decoder z = Inr x_means" "has_shape [N, 4, H, W] x_means"
    and z: "has_shape [N, D] z"
    and enc: "encoder x = Inr (z_mu, z_log_var)" "has_shape [N, D] z_mu"
      "has_shape [N, D] z_log_var"
    and eps: "has_shape [N, D] eps"
    and pos: "0 < N" "0 < H" "0 < W" "0 < D"
  shows "map_sum id (map site_log_prob) (pvae_model decoder D x z)
         = Inr [Inr (Tn (map (\<lambda>zi. Sc (\<Sum>v \<leftarrow> entries zi. normal_log_prob v 0 1))
                             (examples z))),
                Inr (Tn (map (\<lambda>(xi, pi). Sc (\<Sum>(v, q) \<leftarrow> zip (entries xi) (entries pi).
                                                 bernoulli_log_prob v q))
                             (zip (examples x) (examples x_means))))]
       \<and> map_sum id (map site_log_prob_sum) (pvae_model decoder D x z)
         = Inr [Inr (\<Sum>zi \<leftarrow> examples z. \<Sum>v \<leftarrow> entries zi. normal_log_prob v 0 1),
                Inr (\<Sum>(xi, pi) \<leftarrow> zip (examples x) (examples x_means).
                       \<Sum>(v, q) \<leftarrow> zip (entries xi) (entries pi). bernoulli_log_prob v q)]
       \<and> (\<exists>zg. map_sum id (map site_value) (pvae_guide encoder x eps) = Inr [zg]
             \<and> has_shape [N, D] zg
             \<and> map_sum id (map site_log_prob) (pvae_guide encoder x eps)
               = Inr [Inr (Tn (map (\<lambda>((vi, mi), si).
                                Sc (\<Sum>((a, m), d) \<leftarrow> zip (zip (entries vi) (entries mi)) (entries si).
                                      normal_log_prob a m d))
                              (zip (zip (examples zg) (examples z_mu))
                                   (examples (map_tensor exp z_log_var)))))])
       \<and> length (examples x) = N \<and> length (examples x_means) = N \<and> length (examples z) = N
       \<and> (\<forall>xi \<in> set (examples x). length (entries xi) = 4 * H * W)
       \<and> (\<forall>pi \<in> set (examples x_means). length (entries pi) = 4 * H * W)
       \<and> (\<forall>zi \<in> set (examples z). length (entries zi) = D)"
proof -
  have n: "shape0 x = Inr N"
    using x by (auto simp: has_shape_Cons_iff)
  have obs: "log_prob (Independent (Bernoulli x_means) 3) x
         = Inr (Tn (map (\<lambda>(xi, pi). Sc (\<Sum>(v, q) \<leftarrow> zip (entries xi) (entries pi).
                                                 bernoulli_log_prob v q))
                             (zip (examples x) (examples x_means))))"
  proof -
    have l3: "length [4, H, W] = 3" by simp
    have "0 \<notin> set [4, H, W]" using pos by simp
    from log_prob_bernoulli_event [OF x dec(2) pos(1) this]
    show ?thesis unfolding l3 .
  qed
  have lat: "log_prob (Independent (Normal (new_full 0 [N, D]) (new_full 1 [N, D])) 1) z
       = Inr (Tn (map (\<lambda>zi. Sc (\<Sum>v \<leftarrow> entries zi. normal_log_prob v 0 1)) (examples z)))"
    using prior_log_prob [OF z] pos by simp
  let ?L = "\<lparr> name = ''latent'',
                 fn = Independent (Normal (new_full 0 [N, D]) (new_full 1 [N, D])) 1,
                 site_value = z, is_observed = False, plate = (''data'', N) \<rparr>"
  let ?O = "\<lparr> name = ''obs'', fn = Independent (Bernoulli x_means) 3,
                 site_value = x, is_observed = True, plate = (''data'', N) \<rparr>"
  have model: "pvae_model decoder D x z = Inr [?L, ?O]"
    by (simp add: pvae_model_def n dec(1) Let_def del: new_full.simps)
  have sL: "site_log_prob ?L
      = Inr (Tn (map (\<lambda>zi. Sc (\<Sum>v \<leftarrow> entries zi. normal_log_prob v 0 1)) (examples z)))"
    by (simp only: site_log_prob_def site.select_convs lat)
  have sO: "site_log_prob ?O
      = Inr (Tn (map (\<lambda>(xi, pi). Sc (\<Sum>(v, q) \<leftarrow> zip (entries xi) (entries pi).
                                                 bernoulli_log_prob v q))
                             (zip (examples x) (examples x_means))))"
    by (simp only: site_log_prob_def site.select_convs obs)
  have ssL: "site_log_prob_sum ?L
      = Inr (\<Sum>zi \<leftarrow> examples z. \<Sum>v \<leftarrow> entries zi. normal_log_prob v 0 1)"
    by (simp only: site_log_prob_sum_def sL sum.case entries_Tn_map_Sc)
  have ssO: "site_log_prob_sum ?O
      = Inr (\<Sum>(xi, pi) \<leftarrow> zip (examples x) (examples x_means).
                       \<Sum>(v, q) \<leftarrow> zip (entries xi) (entries pi). bernoulli_log_prob v q)"
    by (simp only: site_log_prob_sum_def sO sum.case entries_Tn_map_Sc_pair)
  have c1: "map_sum id (map site_log_prob) (pvae_model decoder D x z)
         = Inr [Inr (Tn (map (\<lambda>zi. Sc (\<Sum>v \<leftarrow> entries zi. normal_log_prob v 0 1))
                             (examples z))),
                Inr (Tn (map (\<lambda>(xi, pi). Sc (\<Sum>(v, q) \<leftarrow> zip (entries xi) (entries pi).
                                                 bernoulli_log_prob v q))
                             (zip (examples x) (examples x_means))))]"
    unfolding model by (simp only: map_sum.simps list.map sL sO)
  have c2: "map_sum id (map site_log_prob_sum) (pvae_model decoder D x z)
         = Inr [Inr (\<Sum>zi \<leftarrow> examples z. \<Sum>v \<leftarrow> entries zi. normal_log_prob v 0 1),
                Inr (\<Sum>(xi, pi) \<leftarrow> zip (examples x) (examples x_means).
                       \<Sum>(v, q) \<leftarrow> zip (entries xi) (entries pi). bernoulli_log_prob v q)]"
    unfolding model by (simp only: map_sum.simps list.map ssL ssO)
  have sc: "has_shape [N, D] (map_tensor exp z_log_var)"
    using enc(3) by (simp only: has_shape_map_tensor)
  from normal_rsample_has_shape [OF enc(2) sc eps]
  obtain zg where zg: "normal_rsample z_mu (map_tensor exp z_log_var) eps = Inr zg"
    "has_shape [N, D] zg" by blast
  have guide: "pvae_guide encoder x eps
       = Inr [\<lparr> name = ''latent'', fn = Independent (Normal z_mu (map_tensor exp z_log_var)) 1,
                 site_value = zg, is_observed = False, plate = (''data'', N) \<rparr>]"
    by (simp add: pvae_guide_def n enc(1) zg(1) Let_def)
  have glp: "log_prob (Independent (Normal z_mu (map_tensor exp z_log_var)) 1) zg
       = Inr (Tn (map (\<lambda>((vi, mi), si).
                        Sc (\<Sum>((a, m), d) \<leftarrow> zip (zip (entries vi) (entries mi)) (entries si).
                              normal_log_prob a m d))
                      (zip (zip (examples zg) (examples z_mu))
                           (examples (map_tensor exp z_log_var)))))"
  proof -
    have l1: "length [D] = 1" by simp
    have "0 \<notin> set [D]" using pos by simp
    from log_prob_normal_event [OF zg(2) enc(2) sc pos(1) this]
    show ?thesis unfolding l1 .
  qed
  have c3: "\<exists>zg. map_sum id (map site_value) (pvae_guide encoder x eps) = Inr [zg]
             \<and> has_shape [N, D] zg
             \<and> map_sum id (map site_log_prob) (pvae_guide encoder x eps)
               = Inr [Inr (Tn (map (\<lambda>((vi, mi), si).
                                Sc (\<Sum>((a, m), d) \<leftarrow> zip (zip (entries vi) (entries mi)) (entries si).
                                      normal_log_prob a m d))
                              (zip (zip (examples zg) (examples z_mu))
                                   (examples (map_tensor exp z_log_var)))))]"
    unfolding guide using zg(2)
    by (intro exI [of _ zg]) (simp only: map_sum.simps list.map site_log_prob_def site.select_convs glp simp_thms)
  have c4: "length (examples x) = N" "length (examples x_means) = N" "length (examples z) = N"
    using examples_has_shape [OF x] examples_has_shape [OF dec(2)] examples_has_shape [OF z]
    by simp_all
  have c5: "\<forall>xi \<in> set (examples x). length (entries xi) = 4 * H * W"
    using examples_has_shape [OF x] by (auto simp: length_entries)
  have c6: "\<forall>pi \<in> set (examples x_means). length (entries pi) = 4 * H * W"
    using examples_has_shape [OF dec(2)] by (auto simp: length_entries)
  have c7: "\<forall>zi \<in> set (examples z). length (entries zi) = D"
    using examples_has_shape [OF z] by (auto simp: length_entries)
  show ?thesis
    using c1 c2 c3 c4 c5 c6 c7 by blast
qed

theorem event_log_densities_witness:
  "has_shape [1, 4, 1, 1] (Tn [Tn [Tn [Tn [Sc (1::real)]], Tn [Tn [Sc 0]], Tn [Tn [Sc 1]], Tn [Tn [Sc 0]]]])
   \<and> has_shape [1, 4, 1, 1] (Tn [Tn [Tn [Tn [Sc (1 / 2 :: real)]], Tn [Tn [Sc (1 / 2)]], Tn [Tn [Sc (1 / 2)]], Tn [Tn [Sc (1 / 2)]]]])
   \<and> has_shape [1, 1] (Tn [Tn [Sc (0::real)]])
   \<and> map_sum id (map site_log_prob_sum)
        (pvae_model (\<lambda>z. Inr (Tn [Tn [Tn [Tn [Sc (1 / 2)]], Tn [Tn [Sc (1 / 2)]], Tn [Tn [Sc (1 / 2)]], Tn [Tn [Sc (1 / 2)]]]])) 1
           (Tn [Tn [Tn [Tn [Sc 1]], Tn [Tn [Sc 0]], Tn [Tn [Sc 1]], Tn [Tn [Sc 0]]]])
           (Tn [Tn [Sc 0]]))
      = Inr [Inr (normal_log_prob 0 0 1),
             Inr (bernoulli_log_prob 1 (1 / 2) + bernoulli_log_prob 0 (1 / 2)
                  + bernoulli_log_prob 1 (1 / 2) + bernoulli_log_prob 0 (1 / 2))]
   \<and> map (\<lambda>xi. length (entries xi))
         (examples (Tn [Tn [Tn [Tn [Sc (1::real)]], Tn [Tn [Sc 0]], Tn [Tn [Sc 1]], Tn [Tn [Sc 0]]]]))
       = [4 * 1 * 1]"
proof -
  let ?x = "Tn [Tn [Tn [Tn [Sc (1::real)]], Tn [Tn [Sc 0]], Tn [Tn [Sc 1]], Tn [Tn [Sc 0]]]]"
  let ?p = "Tn [Tn [Tn [Tn [Sc (1 / 2 :: real)]], Tn [Tn [Sc (1 / 2)]], Tn [Tn [Sc (1 / 2)]], Tn [Tn [Sc (1 / 2)]]]]"
  let ?z = "Tn [Tn [Sc (0::real)]]"
  have h1: "has_shape [1, 4, 1, 1] ?x" by simp
  have h2: "(\<lambda>z. Inr ?p) ?z = (Inr ?p :: error + real tensor)" by simp
  have h3: "has_shape [1, 4, 1, 1] ?p" by simp
  have h4: "has_shape [1, 1] ?z" by simp
  have h5: "(\<lambda>x. Inr (?z, ?z)) ?x = (Inr (?z, ?z) :: error + real tensor \<times> real tensor)" by simp
  have p: "0 < (1::nat)" by simp
  note r = event_log_densities [OF h1 h2 h3 h4 h5 h4 h4 h4 p p p p]
  from r have n: "\<forall>xi \<in> set (examples ?x). length (entries xi) = 4 * 1 * 1"
    by blast
  from r
  have "map_sum id (map site_log_prob_sum) (pvae_model (\<lambda>z. Inr ?p) 1 ?x ?z)
         = Inr [Inr (\<Sum>zi \<leftarrow> examples ?z. \<Sum>v \<leftarrow> entries zi. normal_log_prob v 0 1),
                Inr (\<Sum>(xi, pi) \<leftarrow> zip (examples ?x) (examples ?p).
                       \<Sum>(v, q) \<leftarrow> zip (entries xi) (entries pi). bernoulli_log_prob v q)]"
    by blast
  then show ?thesis using h1 h3 h4 n by simp
qed

section \<open>The epoch loop\<close>

lemma upt_0_300: "[0 ..< 300] = 0 # [1 ..< 300]"
  by (simp add: upt_rec [of 0])

lemma train_counting:
  "train (counting_env True f) one_batch s = Inr (Fin 1, Suc s)"
  by (simp add: train_def counting_env_def torch_cuda_call_def one_batch_def)

lemma evaluate_counting:
  "evaluate (counting_env c f) one_batch s
     = (case fdiv_len (fadd (Fin 0) (f s)) (Suc 0) of Inl e \<Rightarrow> Inl e | Inr l \<Rightarrow> Inr (l, s))"
  by (simp add: evaluate_def counting_env_def torch_cuda_call_def one_batch_def)

lemma counting_env_sel:
  "cuda_available (counting_env c f) = c"
  "set_training (counting_env c f) b s = s"
  "reconstruct_state (counting_env c f) s = s"
  by (simp_all add: counting_env_def)

lemma nan_epoch_body:
  "epoch_body (counting_env True (\<lambda>s. NaN)) one_batch
      one_batch e d
   = Next (if e mod TEST_FREQUENCY = 0
           then d\<lparr> pyro := Suc (pyro d), train_elbo := train_elbo d @ [Fin (- 1)],
                   test_elbo := test_elbo d @ [NaN],
                   out := out d @ [PrintTrain e (Fin 1), PrintTest e NaN, SaveFig] \<rparr>
           else d\<lparr> pyro := Suc (pyro d), train_elbo := train_elbo d @ [Fin (- 1)],
                   out := out d @ [PrintTrain e (Fin 1)] \<rparr>)"
  by (simp add: epoch_body_def train_counting evaluate_counting counting_env_sel Let_def)

lemma nan_epoch_loop:
  "is_Next (epoch_loop (counting_env True (\<lambda>s. NaN)) one_batch
      one_batch es d)
   \<and> pyro (state (epoch_loop (counting_env True (\<lambda>s. NaN)) one_batch
      one_batch es d)) = pyro d + length es
   \<and> set (out d) \<subseteq> set (out (state (epoch_loop (counting_env True (\<lambda>s. NaN))
        one_batch one_batch es d)))"
proof (induction es arbitrary: d)
  case Nil
  show ?case by simp
next
  case (Cons e es)
  show ?case
    unfolding epoch_loop.simps nan_epoch_body outcome.case
    using Cons.IH [of "if e mod TEST_FREQUENCY = 0
           then d\<lparr> pyro := Suc (pyro d), train_elbo := train_elbo d @ [Fin (- 1)],
                   test_elbo := test_elbo d @ [NaN],
                   out := out d @ [PrintTrain e (Fin 1), PrintTest e NaN, SaveFig] \<rparr>
           else d\<lparr> pyro := Suc (pyro d), train_elbo := train_elbo d @ [Fin (- 1)],
                   out := out d @ [PrintTrain e (Fin 1)] \<rparr>"]
    by (auto split: if_splits)
qed

text \<open>
  Claim C6 as stated fails for a loss that is not a number: with an evaluation loss NaN at
  epoch 0 (and at every later evaluation) the test \<^verbatim>\<open>total_epoch_loss_test < 0\<close> is false,
  the loop runs through all 300 epochs and takes all 300 training steps.
\<close>

theorem nan_loss_does_not_stop_the_loop:
  "is_Next (main (counting_env True (\<lambda>s. NaN)) one_batch
      one_batch 0)
   \<and> PrintTest 0 NaN \<in> set (out (state (main (counting_env True (\<lambda>s. NaN))
        one_batch one_batch 0)))
   \<and> pyro (state (main (counting_env True (\<lambda>s. NaN)) one_batch
      one_batch 0)) = 300"
proof -
  let ?E = "counting_env True (\<lambda>s. NaN)"
  let ?L = "one_batch"
  let ?d1 = "\<lparr> pyro = Suc 0, best = PInf, train_elbo = [Fin (- 1)], test_elbo = [NaN],
               out = [PrintTrain 0 (Fin 1), PrintTest 0 NaN, SaveFig] \<rparr>"
  have m: "main ?E ?L ?L 0 = epoch_loop ?E ?L ?L [1 ..< 300] ?d1"
    unfolding main_def NUM_EPOCHS_def upt_0_300 epoch_loop.simps nan_epoch_body
    by (simp add: initial_driver_def counting_env_sel TEST_FREQUENCY_def)
  from nan_epoch_loop [of "[1 ..< 300]" ?d1]
  show ?thesis unfolding m by auto
qed

text \<open>
  Claim C6, amended. Whenever an evaluation produces an average loss that compares below
  zero (a negative number or minus infinity), the loop ends at once, whatever epochs remain:
  the loss is recorded unchanged, the anomaly is printed last, no step of training or
  evaluation follows, and neither the watermark nor a checkpoint is touched.
\<close>

theorem negative_loss_breaks:
  assumes "train E train_loader (pyro d) = Inr (l, s1)"
    and "epoch mod TEST_FREQUENCY = 0"
    and "evaluate E test_loader (set_training E False s1) = Inr (loss, s2)"
    and "flt loss (Fin 0)"
  shows "epoch_loop E train_loader test_loader (epoch # epochs) d
       = Break (d\<lparr> pyro := set_training E True s2,
                    train_elbo := train_elbo d @ [fneg l],
                    test_elbo := test_elbo d @ [fneg loss],
                    out := out d @ [PrintTrain epoch l, PrintTest epoch loss, PrintNegative loss] \<rparr>)"
  using assms by (simp add: epoch_body_def Let_def)

theorem negative_loss_breaks_witness:
  "train (counting_env True (\<lambda>s. Fin (- 1))) one_batch
     (pyro (initial_driver (counting_env True (\<lambda>s. Fin (- 1))) 0)) = Inr (Fin 1, 1)
   \<and> 0 mod TEST_FREQUENCY = 0
   \<and> evaluate (counting_env True (\<lambda>s. Fin (- 1))) one_batch
       (set_training (counting_env True (\<lambda>s. Fin (- 1))) False 1) = Inr (Fin (- 1), 1)
   \<and> flt (Fin (- 1)) (Fin 0)
   \<and> main (counting_env True (\<lambda>s. Fin (- 1))) one_batch
        one_batch 0
      = Break \<lparr> pyro = 1, best = PInf, train_elbo = [Fin (- 1)], test_elbo = [Fin 1],
                 out = [PrintTrain 0 (Fin 1), PrintTest 0 (Fin (- 1)),
                        PrintNegative (Fin (- 1))] \<rparr>"
proof -
  let ?E = "counting_env True (\<lambda>s. Fin (- 1))"
  let ?L = "one_batch"
  have h1: "train ?E ?L (pyro (initial_driver ?E 0)) = Inr (Fin 1, 1)"
    by (simp add: train_counting initial_driver_def counting_env_sel)
  have h2: "0 mod TEST_FREQUENCY = 0" by simp
  have h3: "evaluate ?E ?L (set_training ?E False 1) = Inr (Fin (- 1), 1)"
    by (simp add: evaluate_counting counting_env_sel)
  have h4: "flt (Fin (- 1)) (Fin 0)" by simp
  from negative_loss_breaks [OF h1 h2 h3 h4, of "[1 ..< 300]"]
  have "main ?E ?L ?L 0
      = Break \<lparr> pyro = 1, best = PInf, train_elbo = [Fin (- 1)], test_elbo = [Fin 1],
                 out = [PrintTrain 0 (Fin 1), PrintTest 0 (Fin (- 1)),
                        PrintNegative (Fin (- 1))] \<rparr>"
    unfolding main_def NUM_EPOCHS_def upt_0_300
    by (simp add: initial_driver_def counting_env_sel)
  with h1 h2 h3 h4 show ?thesis by blast
qed

subsection \<open>The watermark and the checkpoints\<close>

lemma flt_PInf_iff: "flt l PInf \<longleftrightarrow> l \<noteq> NaN \<and> l \<noteq> PInf"
  by (cases l) auto

lemma flt_trans_le: "flt l b \<Longrightarrow> \<not> flt m b \<Longrightarrow> m \<noteq> NaN \<Longrightarrow> flt l m"
  by (cases l; cases b; cases m) auto

lemma flt_asym_step: "flt l b \<Longrightarrow> \<not> flt m b \<Longrightarrow> \<not> flt m l"
  by (cases l; cases b; cases m) auto

lemma flt_irrefl: "\<not> flt l l"
  by (cases l) auto

lemma flt_not_NaN: "flt l b \<Longrightarrow> l \<noteq> NaN \<and> b \<noteq> NaN"
  by (cases l; cases b) auto

lemma watermark_improves:
  assumes "spec_watermark b ls"
  shows "flt l b \<longleftrightarrow> spec_improves l ls"
proof
  assume lb: "flt l b"
  then have "flt l PInf" by (cases l; cases b) auto
  moreover have "list_all (\<lambda>l'. l' = NaN \<or> flt l l') ls"
    using assms lb flt_trans_le [of l b] by (auto simp: spec_watermark_def list_all_iff)
  ultimately show "spec_improves l ls" by (simp add: spec_improves_def)
next
  assume imp: "spec_improves l ls"
  show "flt l b"
  proof (cases "b = PInf")
    case True
    with imp show ?thesis by (simp add: spec_improves_def)
  next
    case False
    with assms have "b \<in> set ls" "b \<noteq> NaN" by (auto simp: spec_watermark_def)
    with imp show ?thesis by (auto simp: spec_improves_def list_all_iff)
  qed
qed

lemma watermark_lowered:
  assumes "spec_watermark b ls" "flt l b"
  shows "spec_watermark l (ls @ [l])"
  using assms flt_asym_step [of l b] flt_not_NaN [of l b] flt_irrefl [of l]
  by (auto simp: spec_watermark_def list_all_iff)

lemma watermark_kept:
  assumes "spec_watermark b ls" "\<not> flt l b"
  shows "spec_watermark b (ls @ [l])"
  using assms by (auto simp: spec_watermark_def list_all_iff)

lemma spec_improvements_snoc:
  "spec_improvements (evs @ [x])
   = spec_improvements evs @ (if spec_improves (snd x) (map snd evs) then [x] else [])"
proof -
  let ?P = "\<lambda>ys i. spec_improves (snd (ys ! i)) (map snd (take i ys))"
  have u: "[0 ..< length (evs @ [x])] = [0 ..< length evs] @ [length evs]"
    by simp
  have f: "filter (?P (evs @ [x])) [0 ..< length evs] = filter (?P evs) [0 ..< length evs]"
    by (rule filter_cong) (auto simp: nth_append)
  have m: "map (\<lambda>i. (evs @ [x]) ! i) (filter (?P evs) [0 ..< length evs])
         = map (\<lambda>i. evs ! i) (filter (?P evs) [0 ..< length evs])"
    by (rule map_cong) (auto simp: nth_append)
  have l: "?P (evs @ [x]) (length evs) = spec_improves (snd x) (map snd evs)"
    by simp
  have "spec_improvements (evs @ [x])
      = map (\<lambda>i. (evs @ [x]) ! i) (filter (?P (evs @ [x])) [0 ..< length evs])
        @ map (\<lambda>i. (evs @ [x]) ! i) (filter (?P (evs @ [x])) [length evs])"
    unfolding spec_improvements_def u by (simp only: filter_append map_append)
  also have "map (\<lambda>i. (evs @ [x]) ! i) (filter (?P (evs @ [x])) [0 ..< length evs])
      = spec_improvements evs"
    unfolding spec_improvements_def by (simp only: f m)
  also have "map (\<lambda>i. (evs @ [x]) ! i) (filter (?P (evs @ [x])) [length evs])
      = (if spec_improves (snd x) (map snd evs) then [x] else [])"
    using l by simp
  finally show ?thesis .
qed

lemma log_append:
  "evaluated (xs @ ys) = evaluated xs @ evaluated ys"
  "checkpoint_epochs (xs @ ys) = checkpoint_epochs xs @ checkpoint_epochs ys"
  "saved_optimizers (xs @ ys) = saved_optimizers xs @ saved_optimizers ys"
  "saved_weights (xs @ ys) = saved_weights xs @ saved_weights ys"
  by (simp_all add: evaluated_def checkpoint_epochs_def saved_optimizers_def saved_weights_def)

lemma log_Nil:
  "evaluated [] = []" "checkpoint_epochs [] = []" "saved_optimizers [] = []"
  "saved_weights [] = []"
  by (simp_all add: evaluated_def checkpoint_epochs_def saved_optimizers_def saved_weights_def)

lemma log_Cons:
  "evaluated (ev # evs) = (case ev of PrintTest e l \<Rightarrow> [(e, l)] | _ \<Rightarrow> []) @ evaluated evs"
  "checkpoint_epochs (ev # evs) = (case ev of PrintSaving e \<Rightarrow> [e] | _ \<Rightarrow> []) @ checkpoint_epochs evs"
  "saved_optimizers (ev # evs) = (case ev of SaveOptimizer s \<Rightarrow> [s] | _ \<Rightarrow> []) @ saved_optimizers evs"
  "saved_weights (ev # evs) = (case ev of SaveWeights s \<Rightarrow> [s] | _ \<Rightarrow> []) @ saved_weights evs"
  by (simp_all add: evaluated_def checkpoint_epochs_def saved_optimizers_def saved_weights_def)

lemmas log_simps = log_append log_Nil log_Cons

text \<open>What an epoch without evaluation, or a step that only prints, does to the policy.\<close>

lemma policy_inv_cong:
  assumes "policy_inv d" "best d' = best d" "evaluated (out d') = evaluated (out d)"
    "checkpoint_epochs (out d') = checkpoint_epochs (out d)"
    "saved_optimizers (out d') = saved_optimizers (out d)"
    "saved_weights (out d') = saved_weights (out d)"
  shows "policy_inv d'"
  using assms by (simp add: policy_inv_def)

lemma policy_inv_negative:
  assumes "policy_inv d" "flt l (Fin 0)" "best d' = best d"
    "evaluated (out d') = evaluated (out d) @ [(e, l)]"
    "checkpoint_epochs (out d') = checkpoint_epochs (out d)"
    "saved_optimizers (out d') = saved_optimizers (out d)"
    "saved_weights (out d') = saved_weights (out d)"
  shows "policy_inv d'"
  using assms by (simp add: policy_inv_def not_negative_def)

lemma policy_inv_not_improved:
  assumes "policy_inv d" "\<not> flt l (Fin 0)" "\<not> flt l (best d)" "best d' = best d"
    "evaluated (out d') = evaluated (out d) @ [(e, l)]"
    "checkpoint_epochs (out d') = checkpoint_epochs (out d)"
    "saved_optimizers (out d') = saved_optimizers (out d)"
    "saved_weights (out d') = saved_weights (out d)"
  shows "policy_inv d'"
proof -
  let ?nn = "not_negative (evaluated (out d))"
  have nn: "not_negative (evaluated (out d) @ [(e, l)]) = ?nn @ [(e, l)]"
    using assms by (simp add: not_negative_def)
  have w: "spec_watermark (best d) (map snd ?nn)" using assms(1) by (simp add: policy_inv_def)
  have "\<not> spec_improves l (map snd ?nn)"
    using watermark_improves [OF w] assms(3) by simp
  then have "spec_improvements (?nn @ [(e, l)]) = spec_improvements ?nn"
    by (simp add: spec_improvements_snoc)
  moreover have "spec_watermark (best d) (map snd ?nn @ [l])"
    using watermark_kept [OF w assms(3)] .
  ultimately show ?thesis
    using assms by (simp add: policy_inv_def nn)
qed

lemma policy_inv_improved:
  assumes "policy_inv d" "\<not> flt l (Fin 0)" "flt l (best d)" "best d' = l"
    "evaluated (out d') = evaluated (out d) @ [(e, l)]"
    "checkpoint_epochs (out d') = checkpoint_epochs (out d) @ [e]"
    "saved_optimizers (out d') = saved_optimizers (out d) @ [s]"
    "saved_weights (out d') = saved_weights (out d) @ [s]"
  shows "policy_inv d'"
proof -
  let ?nn = "not_negative (evaluated (out d))"
  have nn: "not_negative (evaluated (out d) @ [(e, l)]) = ?nn @ [(e, l)]"
    using assms by (simp add: not_negative_def)
  have w: "spec_watermark (best d) (map snd ?nn)" using assms(1) by (simp add: policy_inv_def)
  have "spec_improves l (map snd ?nn)"
    using watermark_improves [OF w] assms(3) by simp
  then have "spec_improvements (?nn @ [(e, l)]) = spec_improvements ?nn @ [(e, l)]"
    by (simp add: spec_improvements_snoc)
  moreover have "spec_watermark l (map snd ?nn @ [l])"
    using watermark_lowered [OF w assms(3)] .
  ultimately show ?thesis
    using assms by (simp add: policy_inv_def nn)
qed

lemma epoch_body_policy:
  assumes inv: "policy_inv d"
  shows "policy_inv (state (epoch_body E train_loader test_loader epoch d))"
proof (cases "train E train_loader (pyro d)")
  case (Inl err)
  then show ?thesis using inv by (simp add: epoch_body_def)
next
  case (Inr r)
  then obtain l s1 where tr: "train E train_loader (pyro d) = Inr (l, s1)" by (cases r) auto
  show ?thesis
  proof (cases "epoch mod TEST_FREQUENCY = 0")
    case False
    then show ?thesis
      using tr by (auto simp: epoch_body_def Let_def log_simps intro!: policy_inv_cong [OF inv])
  next
    case ev: True
    show ?thesis
    proof (cases "evaluate E test_loader (set_training E False s1)")
      case (Inl err)
      then show ?thesis
        using tr ev by (auto simp: epoch_body_def Let_def log_simps intro!: policy_inv_cong [OF inv])
    next
      case (Inr r2)
      then obtain loss s2 where te: "evaluate E test_loader (set_training E False s1) = Inr (loss, s2)"
        by (cases r2) auto
      show ?thesis
      proof (cases "flt loss (Fin 0)")
        case True
        then show ?thesis
          using tr ev te
          by (auto simp: epoch_body_def Let_def log_simps intro!: policy_inv_negative [OF inv, of loss _ epoch])
      next
        case nonneg: False
        show ?thesis
        proof (cases "flt loss (best d)")
          case True
          then show ?thesis
            using tr ev te nonneg
            by (auto simp: epoch_body_def Let_def log_simps
                intro!: policy_inv_improved [OF inv, of loss _ epoch "set_training E True s2"])
        next
          case False
          then show ?thesis
            using tr ev te nonneg
            by (auto simp: epoch_body_def Let_def log_simps
                intro!: policy_inv_not_improved [OF inv, of loss _ epoch])
        qed
      qed
    qed
  qed
qed

lemma epoch_loop_policy:
  "policy_inv d \<Longrightarrow> policy_inv (state (epoch_loop E train_loader test_loader epochs d))"
proof (induction epochs arbitrary: d)
  case Nil
  then show ?case by simp
next
  case (Cons e es)
  from epoch_body_policy [OF Cons.prems, of E train_loader test_loader e]
  show ?case
    using Cons.IH by (cases "epoch_body E train_loader test_loader e d") auto
qed

lemma initial_policy: "policy_inv (initial_driver E s0)"
  by (simp add: policy_inv_def initial_driver_def spec_watermark_def spec_improvements_def
      not_negative_def log_Nil)

text \<open>
  Claim C7 as stated fails when a loss is negative: with a first evaluation loss of -2,
  lower than anything seen before, the loop ends with the watermark still at plus infinity
  and without a checkpoint.
\<close>

theorem negative_loss_leaves_watermark:
  "is_Break (main (counting_env True (\<lambda>s. Fin (- 2))) one_batch one_batch 0)
   \<and> evaluated (out (state (main (counting_env True (\<lambda>s. Fin (- 2))) one_batch one_batch 0)))
       = [(0, Fin (- 2))]
   \<and> flt (Fin (- 2)) PInf
   \<and> best (state (main (counting_env True (\<lambda>s. Fin (- 2))) one_batch one_batch 0)) = PInf
   \<and> checkpoint_epochs (out (state (main (counting_env True (\<lambda>s. Fin (- 2))) one_batch one_batch 0)))
       = []
   \<and> saved_weights (out (state (main (counting_env True (\<lambda>s. Fin (- 2))) one_batch one_batch 0)))
       = []"
proof -
  have m: "main (counting_env True (\<lambda>s. Fin (- 2))) one_batch one_batch 0
      = Break \<lparr> pyro = 1, best = PInf, train_elbo = [Fin (- 1)], test_elbo = [Fin 2],
                 out = [PrintTrain 0 (Fin 1), PrintTest 0 (Fin (- 2)),
                        PrintNegative (Fin (- 2))] \<rparr>"
    unfolding main_def NUM_EPOCHS_def upt_0_300 epoch_loop.simps
    by (simp add: epoch_body_def train_counting evaluate_counting counting_env_sel
        initial_driver_def Let_def)
  show ?thesis unfolding m by (simp add: log_simps)
qed

text \<open>
  Claim C7, amended. After any number of epochs of the loop, however it ended: the watermark
  is the minimum of the evaluation losses printed so far that are not negative (plus
  infinity at the start; a NaN never lowers it); a checkpoint was announced at exactly those
  evaluation epochs whose loss is not negative and strictly lower than plus infinity and
  than every earlier such loss that is a number; and each checkpoint wrote the optimizer
  state and the weights of that moment, once each.
\<close>

theorem checkpoint_policy:
  "let d = state (epoch_loop E train_loader test_loader [0 ..< n] (initial_driver E s0));
       seen = not_negative (evaluated (out d))
   in spec_watermark (best d) (map snd seen)
      \<and> checkpoint_epochs (out d) = map fst (spec_improvements seen)
      \<and> saved_optimizers (out d) = saved_weights (out d)
      \<and> length (saved_weights (out d)) = length (checkpoint_epochs (out d))"
  using epoch_loop_policy [OF initial_policy [of E s0], of E train_loader test_loader "[0 ..< n]"]
  by (simp add: policy_inv_def Let_def)

lemma upt_0_6: "[0 ..< 6] = [0, 1, 2, 3, 4, 5]"
  by (simp add: upt_rec)

theorem checkpoint_policy_witness:
  "checkpoint_epochs (out (state (epoch_loop (counting_env True (\<lambda>s. Fin (10 - real s)))
      one_batch one_batch [0 ..< 6] (initial_driver (counting_env True (\<lambda>s. Fin (10 - real s))) 0))))
     = [0, 5]
   \<and> map fst (spec_improvements (not_negative [(0, Fin 9), (5, Fin 4)])) = [0, 5]
   \<and> spec_watermark (Fin 4) (map snd (not_negative [(0, Fin 9), (5, Fin 4)]))
   \<and> saved_weights (out (state (epoch_loop (counting_env True (\<lambda>s. Fin (10 - real s)))
      one_batch one_batch [0 ..< 6] (initial_driver (counting_env True (\<lambda>s. Fin (10 - real s))) 0))))
     = [1, 6]"
proof -
  let ?E = "counting_env True (\<lambda>s. Fin (10 - real s))"
  have loop: "epoch_loop ?E one_batch one_batch [0 ..< 6] (initial_driver ?E 0)
      = Next \<lparr> pyro = 6, best = Fin 4,
                train_elbo = [Fin (- 1), Fin (- 1), Fin (- 1), Fin (- 1), Fin (- 1), Fin (- 1)],
                test_elbo = [Fin (- 9), Fin (- 4)],
                out = [PrintTrain 0 (Fin 1), PrintTest 0 (Fin 9), PrintSaving 0,
                       SaveOptimizer 1, SaveWeights 1, SaveFig, PrintTrain 1 (Fin 1),
                       PrintTrain 2 (Fin 1), PrintTrain 3 (Fin 1), PrintTrain 4 (Fin 1),
                       PrintTrain 5 (Fin 1), PrintTest 5 (Fin 4), PrintSaving 5,
                       SaveOptimizer 6, SaveWeights 6, SaveFig] \<rparr>"
    unfolding upt_0_6
    by (simp add: epoch_body_def train_counting evaluate_counting counting_env_sel
        initial_driver_def Let_def TEST_FREQUENCY_def)
  from checkpoint_policy [where E = ?E and train_loader = one_batch and test_loader = one_batch
      and n = 6 and ?s0.0 = 0]
  show ?thesis unfolding loop by (simp add: Let_def log_simps)
qed


end
